theory Spec2Isabelle
  imports Main
begin

section \<open>The parsed declaration tree\<close>

text \<open>
  The script \<^verbatim>\<open>lighthouse-core/scripts/extract-crdp-mapping.js\<close> walks the syntax
  tree that the TypeScript parser builds for the protocol's declaration file. The tree
  is modelled by the node kinds the script distinguishes, each carrying the fields the
  script reads. Strings are lists of characters.

  An entity name is an identifier (its \<^verbatim>\<open>text\<close>) or a qualified name
  \<^verbatim>\<open>left.right\<close>, whose right part is an identifier (its \<^verbatim>\<open>text\<close>).
\<close>

datatype entity_name =
    Identifier string
  | QualifiedName entity_name string

text \<open>
  Type nodes. A type reference has a \<^verbatim>\<open>typeName\<close> and optional
  \<^verbatim>\<open>typeArguments\<close>; a function type has \<^verbatim>\<open>parameters\<close> and an optional
  return type (its field \<^verbatim>\<open>type\<close>); a parameter has an optional \<^verbatim>\<open>type\<close>.
  Every other kind of type node is \<open>OtherTypeNode\<close>.
\<close>

datatype type_node =
    VoidKeyword
  | TypeReferenceNode type_reference
  | FunctionTypeNode function_type
  | OtherTypeNode
and type_reference =
    TypeReference (typeName: entity_name) (typeArguments: "type_node list option")
and function_type =
    FunctionType (parameters: "parameter list") (return_type: "type_node option")
and parameter =
    Parameter (param_type: "type_node option")

text \<open>
  Members of an interface. The name of a member is an identifier or something else
  (a string or numeric literal, a computed name). A property signature has a name, an
  optional question token and an optional type; a method signature has a name and
  parameters.
\<close>

datatype property_name =
    IdentifierName string
  | OtherPropertyName

datatype property_signature =
  PropertySignature (prop_name: property_name) (questionToken: "unit option")
    (prop_type: "type_node option")

datatype method_signature =
  MethodSignature (method_name: property_name) (method_parameters: "parameter list")

datatype type_element =
    PropertySignatureElement property_signature
  | MethodSignatureElement method_signature
  | OtherTypeElement

text \<open>
  Declarations. An interface declaration carries the \<^verbatim>\<open>escapedText\<close> of its name
  and its members; a module declaration carries the \<^verbatim>\<open>text\<close> of its name and the
  declarations that \<^verbatim>\<open>ts.forEachChild\<close> reaches below it (the statements of its
  block, or the nested module of a dotted namespace). Any other node (the source file
  itself, a variable statement, ...) is \<open>OtherNode\<close> with its children in visiting
  order. The children of an interface declaration are its name, type parameters,
  heritage clauses and members, none of which is or contains an interface or module
  declaration in a declaration file, so the search below does not descend into them.
\<close>

datatype node =
    InterfaceDeclaration string "type_element list"
  | ModuleDeclaration string "node list"
  | OtherNode "node list"

text \<open>
  Failures. Every \<^verbatim>\<open>throw new Error(msg)\<close> of the script is \<open>Error msg\<close>; a
  property read on \<^verbatim>\<open>undefined\<close>, which the JavaScript engine answers with a
  \<^verbatim>\<open>TypeError\<close> of its own, is \<open>TypeError\<close>.
\<close>

datatype error =
    Error string
  | TypeError

section \<open>Strings and ordered maps of the host language\<close>

fun digit_char :: "nat \<Rightarrow> char" where
  "digit_char n = char_of (of_char (CHR ''0'') + n)"

fun show_nat :: "nat \<Rightarrow> string" where
  "show_nat n = (if n < 10 then [digit_char n] else show_nat (n div 10) @ [digit_char (n mod 10)])"

declare show_nat.simps [simp del]

text \<open>\<^verbatim>\<open>String.prototype.repeat\<close>.\<close>

fun repeat :: "string \<Rightarrow> nat \<Rightarrow> string" where
  "repeat s 0 = []"
| "repeat s (Suc n) = s @ repeat s n"

text \<open>
  \<^verbatim>\<open>toLowerCase\<close>, exact on ASCII code units (the script applies it only to a
  character that matched \<^verbatim>\<open>[A-Z]\<close>).
\<close>

definition isUpperAZ :: "char \<Rightarrow> bool" where
  "isUpperAZ c = (of_char (CHR ''A'') \<le> (of_char c :: nat) \<and> (of_char c :: nat) \<le> of_char (CHR ''Z''))"

definition isLowerAZ :: "char \<Rightarrow> bool" where
  "isLowerAZ c = (of_char (CHR ''a'') \<le> (of_char c :: nat) \<and> (of_char c :: nat) \<le> of_char (CHR ''z''))"

definition toLowerCase_char :: "char \<Rightarrow> char" where
  "toLowerCase_char c = (if isUpperAZ c then char_of ((of_char c :: nat) + 32) else c)"

definition toLowerCase :: "string \<Rightarrow> string" where
  "toLowerCase s = map toLowerCase_char s"

text \<open>
  A JavaScript \<^verbatim>\<open>Map\<close>: entries in insertion order. \<^verbatim>\<open>set\<close> on a key that is
  present replaces its value where the key stands; on a new key it appends.
\<close>

fun map_set :: "'k \<Rightarrow> 'v \<Rightarrow> ('k \<times> 'v) list \<Rightarrow> ('k \<times> 'v) list" where
  "map_set k v [] = [(k, v)]"
| "map_set k v ((k', v') # m) = (if k' = k then (k, v) # m else (k', v') # map_set k v m)"

section \<open>Searching the tree\<close>

text \<open>
  \<^verbatim>\<open>findFirstInterfaceOrModule\<close>: depth-first, the first interface or module whose
  name is the target. \<open>walker_children\<close> is \<^verbatim>\<open>ts.forEachChild(node, walker)\<close>,
  which stops at the first child for which the walker returns a node.
\<close>

fun walker :: "string \<Rightarrow> node \<Rightarrow> node option"
  and walker_children :: "string \<Rightarrow> node list \<Rightarrow> node option" where
  "walker targetName (InterfaceDeclaration n members) =
     (if n = targetName then Some (InterfaceDeclaration n members) else None)"
| "walker targetName (ModuleDeclaration n children) =
     (if n = targetName then Some (ModuleDeclaration n children)
      else walker_children targetName children)"
| "walker targetName (OtherNode children) = walker_children targetName children"
| "walker_children targetName [] = None"
| "walker_children targetName (c # cs) =
     (case walker targetName c of
        Some found \<Rightarrow> Some found
      | None \<Rightarrow> walker_children targetName cs)"

definition findFirstInterfaceOrModule :: "node \<Rightarrow> string \<Rightarrow> node option" where
  "findFirstInterfaceOrModule rootNode targetName = walker targetName rootNode"

text \<open>
  \<^verbatim>\<open>getCrdpDomainNames\<close>: the identifier-named property signatures among the
  children of the first \<^verbatim>\<open>CrdpClient\<close> declaration. The children of a module
  declaration (its name and its body) are no property signatures.
\<close>

fun domainProperties :: "type_element list \<Rightarrow> string list" where
  "domainProperties [] = []"
| "domainProperties (PropertySignatureElement p # ms) =
     (case prop_name p of
        IdentifierName t \<Rightarrow> t # domainProperties ms
      | OtherPropertyName \<Rightarrow> domainProperties ms)"
| "domainProperties (_ # ms) = domainProperties ms"

definition getCrdpDomainNames :: "node \<Rightarrow> error + string list" where
  "getCrdpDomainNames nd =
     (case findFirstInterfaceOrModule nd ''CrdpClient'' of
        None \<Rightarrow> Inl (Error ''no `interface CrdpClient` found in typing file'')
      | Some (InterfaceDeclaration n members) \<Rightarrow> Inr (domainProperties members)
      | Some _ \<Rightarrow> Inr [])"

section \<open>Type names and parameter shapes\<close>

text \<open>\<^verbatim>\<open>getTypeName\<close>: the domain and type of a two-part qualified type name.\<close>

definition getTypeName :: "type_reference \<Rightarrow> string \<Rightarrow> error + (string \<times> string)" where
  "getTypeName typeNode debugName =
     (case typeName typeNode of
        QualifiedName left right \<Rightarrow>
          (case left of
             QualifiedName _ _ \<Rightarrow>
               Inl (Error (''unsupported triple nested type name in '' @ debugName))
           | Identifier domain \<Rightarrow> Inr (domain, right))
      | Identifier _ \<Rightarrow> Inl (Error (''unexpected type node in '' @ debugName)))"

text \<open>
  \<^verbatim>\<open>getParamType\<close>: a function type has no parameter (\<^verbatim>\<open>null\<close>, here \<open>None\<close>) or
  one parameter, whose type is a type reference.
\<close>

definition getParamType :: "function_type \<Rightarrow> string \<Rightarrow> error + type_reference option" where
  "getParamType functionNode debugName =
     (let paramCount = length (parameters functionNode) in
      if paramCount = 1 then
        (case param_type (parameters functionNode ! 0) of
           Some (TypeReferenceNode paramType) \<Rightarrow> Inr (Some paramType)
         | _ \<Rightarrow> Inl (Error (''unexpected param passed to '' @ debugName)))
      else if paramCount > 1 then
        Inl (Error (''found '' @ show_nat paramCount @ '' parameters passed to '' @ debugName @ ''.''))
      else Inr None)"

text \<open>
  \<^verbatim>\<open>getEventListenerParamType\<close>. The script guards against more than one
  parameter and then reads \<^verbatim>\<open>methodNode.parameters[0].type\<close>; with no parameter
  \<^verbatim>\<open>parameters[0]\<close> is \<^verbatim>\<open>undefined\<close> and the read raises a \<^verbatim>\<open>TypeError\<close>.
\<close>

definition getEventListenerParamType ::
  "method_signature \<Rightarrow> string \<Rightarrow> error + type_reference option" where
  "getEventListenerParamType methodNode methodName =
     (if length (method_parameters methodNode) > 1 then
        Inl (Error (''found '' @ show_nat (length (method_parameters methodNode)) @
          '' parameters passed to '' @ methodName @ ''.''))
      else
        (case method_parameters methodNode of
           [] \<Rightarrow> Inl TypeError
         | p # _ \<Rightarrow>
             (case param_type p of
                Some (FunctionTypeNode listenerTypeNode) \<Rightarrow> getParamType listenerTypeNode methodName
              | _ \<Rightarrow> Inl (Error (''found unexpected argument passed to '' @ methodName @ ''.'')))))"

section \<open>The event map\<close>

text \<open>The test \<^verbatim>\<open>/^on[A-Z]/.test(methodName)\<close>.\<close>

fun test_on_upper :: "string \<Rightarrow> bool" where
  "test_on_upper (a # b # c # rest) = (a = CHR ''o'' \<and> b = CHR ''n'' \<and> isUpperAZ c)"
| "test_on_upper _ = False"

text \<open>
  \<^verbatim>\<open>methodName[2].toLowerCase() + methodName.slice(3)\<close>. Past the end of the string
  \<^verbatim>\<open>methodName[2]\<close> is \<^verbatim>\<open>undefined\<close>, and calling a method on it raises a
  \<^verbatim>\<open>TypeError\<close>.
\<close>

definition eventString :: "string \<Rightarrow> error + string" where
  "eventString methodName =
     (if 2 < length methodName
      then Inr (toLowerCase [methodName ! 2] @ drop 3 methodName)
      else Inl TypeError)"

text \<open>
  The body of the loop of \<^verbatim>\<open>getEventMap\<close> for one member: \<open>Inr None\<close> is
  \<^verbatim>\<open>continue\<close>, \<open>Inr (Some (eventName, eventType))\<close> is the entry the loop then
  stores with \<^verbatim>\<open>eventMap.set\<close>. A node converted to a string by \<^verbatim>\<open>+\<close> reads
  \<^verbatim>\<open>[object Object]\<close>.
\<close>

definition getEventMap_member :: "string \<Rightarrow> type_element \<Rightarrow> error + (string \<times> string) option" where
  "getEventMap_member domainName member =
     (case member of
        MethodSignatureElement m \<Rightarrow>
          (case method_name m of
             OtherPropertyName \<Rightarrow> Inl (Error ''Bad event method found[object Object]'')
           | IdentifierName methodName \<Rightarrow>
               if \<not> test_on_upper methodName
               then Inl (Error (''bad method name found: '' @ methodName))
               else
                 (case eventString methodName of
                    Inl e \<Rightarrow> Inl e
                  | Inr eventStr \<Rightarrow>
                      (let eventName = domainName @ ''.'' @ eventStr in
                       case getEventListenerParamType m methodName of
                         Inl e \<Rightarrow> Inl e
                       | Inr None \<Rightarrow> Inr (Some (eventName, ''void''))
                       | Inr (Some rawEventType) \<Rightarrow>
                           (case getTypeName rawEventType methodName of
                              Inl e \<Rightarrow> Inl e
                            | Inr (domain, type) \<Rightarrow>
                                Inr (Some (eventName, ''Crdp.'' @ domain @ ''.'' @ type))))))
      | _ \<Rightarrow> Inr None)"

fun getEventMap_members ::
  "string \<Rightarrow> type_element list \<Rightarrow> (string \<times> string) list \<Rightarrow> error + (string \<times> string) list" where
  "getEventMap_members domainName [] eventMap = Inr eventMap"
| "getEventMap_members domainName (member # members) eventMap =
     (case getEventMap_member domainName member of
        Inl e \<Rightarrow> Inl e
      | Inr None \<Rightarrow> getEventMap_members domainName members eventMap
      | Inr (Some (eventName, eventType)) \<Rightarrow>
          getEventMap_members domainName members (map_set eventName eventType eventMap))"

definition getEventMap :: "node \<Rightarrow> string \<Rightarrow> error + (string \<times> string) list" where
  "getEventMap sourceRoot domainName =
     (case findFirstInterfaceOrModule sourceRoot (domainName @ ''Client'') of
        Some (InterfaceDeclaration n members) \<Rightarrow> getEventMap_members domainName members []
      | _ \<Rightarrow>
          Inl (Error (''Events interface not found for domain '' @ [CHR 0x27] @ domainName @
            [CHR 0x27] @ ''.'')))"

section \<open>The command map\<close>

text \<open>\<^verbatim>\<open>getPromisedReturnType\<close>: the payload of a \<^verbatim>\<open>Promise<...>\<close> return type.\<close>

definition getPromisedReturnType :: "function_type \<Rightarrow> string \<Rightarrow> error + string" where
  "getPromisedReturnType functionNode debugName =
     (case return_type functionNode of
        Some (TypeReferenceNode returnTypeNode) \<Rightarrow>
          (case typeName returnTypeNode of
             QualifiedName _ _ \<Rightarrow>
               Inl (Error (''command '' @ debugName @ '' has unexpected return type''))
           | Identifier t \<Rightarrow>
               if t \<noteq> ''Promise'' then
                 Inl (Error (''command '' @ debugName @ '' has unexpected return type''))
               else
                 (case typeArguments returnTypeNode of
                    None \<Rightarrow> Inl (Error (''command '' @ debugName @ '' has unexpected return type''))
                  | Some args \<Rightarrow>
                      if length args \<noteq> 1 then
                        Inl (Error (''unexpected param(s) passed to '' @ debugName))
                      else
                        (case args ! 0 of
                           VoidKeyword \<Rightarrow> Inr ''void''
                         | TypeReferenceNode payloadType \<Rightarrow>
                             (case getTypeName payloadType debugName of
                                Inl e \<Rightarrow> Inl e
                              | Inr (domain, type) \<Rightarrow> Inr (domain @ ''.'' @ type))
                         | _ \<Rightarrow> Inl (Error (''unexpected return type for '' @ debugName)))))
      | _ \<Rightarrow> Inl (Error (''unexpected return type for '' @ debugName)))"

text \<open>\<^verbatim>\<open>Array.prototype.every\<close>.\<close>

fun every :: "('a \<Rightarrow> bool) \<Rightarrow> 'a list \<Rightarrow> bool" where
  "every p [] = True"
| "every p (x # xs) = (p x \<and> every p xs)"

text \<open>The callback of \<^verbatim>\<open>every\<close> in \<^verbatim>\<open>isWeakInterface\<close>.\<close>

fun optional_or_no_property :: "type_element \<Rightarrow> bool" where
  "optional_or_no_property (PropertySignatureElement p) = (questionToken p \<noteq> None)"
| "optional_or_no_property _ = True"

definition isWeakInterface :: "node \<Rightarrow> string \<Rightarrow> string \<Rightarrow> error + bool" where
  "isWeakInterface sourceRoot domainName interfaceName =
     (case findFirstInterfaceOrModule sourceRoot domainName of
        Some (ModuleDeclaration dn children) \<Rightarrow>
          (case findFirstInterfaceOrModule (ModuleDeclaration dn children) interfaceName of
             Some (InterfaceDeclaration n members) \<Rightarrow> Inr (every optional_or_no_property members)
           | _ \<Rightarrow>
               Inl (Error (''interface '' @ interfaceName @ '' not found within '' @ domainName @
                 '' domain'')))
      | _ \<Rightarrow> Inl (Error (''domain '' @ domainName @ '' not found'')))"

record command_types =
  paramsType :: string
  returnType :: string

text \<open>
  The body of the loop of \<^verbatim>\<open>getCommandMap\<close> for one member, in two parts.
  \<open>getCommandMap_paramsType\<close> is the block that computes \<^verbatim>\<open>paramsType\<close> from
  the command's function type; \<open>getCommandMap_member\<close> is the whole body: \<open>Inr None\<close>
  is \<^verbatim>\<open>continue\<close>, \<open>Inr (Some (commandName, types))\<close> the entry the loop then
  stores with \<^verbatim>\<open>commandMap.set\<close>.
\<close>

definition getCommandMap_paramsType :: "node \<Rightarrow> function_type \<Rightarrow> string \<Rightarrow> error + string" where
  "getCommandMap_paramsType sourceRoot commandFn commandName =
     (case getParamType commandFn commandName of
        Inl e \<Rightarrow> Inl e
      | Inr None \<Rightarrow> Inr ''void''
      | Inr (Some rawParamsTypeNode) \<Rightarrow>
          (case getTypeName rawParamsTypeNode commandName of
             Inl e \<Rightarrow> Inl e
           | Inr (domain, type) \<Rightarrow>
               (case isWeakInterface sourceRoot domain type of
                  Inl e \<Rightarrow> Inl e
                | Inr weak \<Rightarrow>
                    Inr (if weak
                         then ''void | '' @ (''Crdp.'' @ domain @ ''.'' @ type)
                         else ''Crdp.'' @ domain @ ''.'' @ type))))"

definition getCommandMap_member ::
  "node \<Rightarrow> string \<Rightarrow> type_element \<Rightarrow> error + (string \<times> command_types) option" where
  "getCommandMap_member sourceRoot domainName member =
     (case member of
        PropertySignatureElement p \<Rightarrow>
          (case prop_name p of
             OtherPropertyName \<Rightarrow> Inl (Error ''Bad event method found [object Object]'')
           | IdentifierName t \<Rightarrow>
               (let commandName = domainName @ ''.'' @ t in
                case prop_type p of
                  Some (FunctionTypeNode commandFn) \<Rightarrow>
                    (case getCommandMap_paramsType sourceRoot commandFn commandName of
                       Inl e \<Rightarrow> Inl e
                     | Inr pt \<Rightarrow>
                         (case getPromisedReturnType commandFn commandName of
                            Inl e \<Rightarrow> Inl e
                          | Inr rawReturnTypeName \<Rightarrow>
                              Inr (Some (commandName,
                                \<lparr>paramsType = pt,
                                 returnType = (if rawReturnTypeName = ''void'' then ''void''
                                               else ''Crdp.'' @ rawReturnTypeName)\<rparr>))))
                | _ \<Rightarrow>
                    Inl (Error (''Command '' @ commandName @ '' did not have an assigned function''))))
      | _ \<Rightarrow> Inr None)"

fun getCommandMap_members ::
  "node \<Rightarrow> string \<Rightarrow> type_element list \<Rightarrow> (string \<times> command_types) list \<Rightarrow>
     error + (string \<times> command_types) list" where
  "getCommandMap_members sourceRoot domainName [] commandMap = Inr commandMap"
| "getCommandMap_members sourceRoot domainName (member # members) commandMap =
     (case getCommandMap_member sourceRoot domainName member of
        Inl e \<Rightarrow> Inl e
      | Inr None \<Rightarrow> getCommandMap_members sourceRoot domainName members commandMap
      | Inr (Some (commandName, types)) \<Rightarrow>
          getCommandMap_members sourceRoot domainName members (map_set commandName types commandMap))"

definition getCommandMap :: "node \<Rightarrow> string \<Rightarrow> error + (string \<times> command_types) list" where
  "getCommandMap sourceRoot domainName =
     (case findFirstInterfaceOrModule sourceRoot (domainName @ ''Commands'') of
        Some (InterfaceDeclaration n members) \<Rightarrow>
          getCommandMap_members sourceRoot domainName members []
      | _ \<Rightarrow>
          Inl (Error (''Command interface not found for domain '' @ [CHR 0x27] @ domainName @
            [CHR 0x27] @ ''.'')))"

section \<open>Rendering\<close>

definition OUTPUT_EVENTS_NAME :: string where
  "OUTPUT_EVENTS_NAME = ''CrdpEvents''"

definition OUTPUT_COMMANDS_NAME :: string where
  "OUTPUT_COMMANDS_NAME = ''CrdpCommands''"

definition newline :: "nat \<Rightarrow> string" where
  "newline indentLevel = [CHR 0x0A] @ repeat ''  '' indentLevel"

text \<open>
  \<^verbatim>\<open>outputEventMap\<close>: the inner loop appends one line per entry of a domain's event
  map, the outer loop runs over the domains and stops at the first failure.
\<close>

fun outputEventMap_entries :: "(string \<times> string) list \<Rightarrow> nat \<Rightarrow> string \<Rightarrow> string" where
  "outputEventMap_entries [] indentLevel outputStr = outputStr"
| "outputEventMap_entries ((eventName, eventType) # entries) indentLevel outputStr =
     outputEventMap_entries entries indentLevel
       (outputStr @ (newline (indentLevel + 1) @
          ([CHR 0x27] @ eventName @ [CHR 0x27] @ '': '' @ eventType @ '';'')))"

fun outputEventMap_domains :: "node \<Rightarrow> string list \<Rightarrow> nat \<Rightarrow> string \<Rightarrow> error + string" where
  "outputEventMap_domains sourceRoot [] indentLevel outputStr = Inr outputStr"
| "outputEventMap_domains sourceRoot (domainName # domainNames) indentLevel outputStr =
     (case getEventMap sourceRoot domainName of
        Inl e \<Rightarrow> Inl e
      | Inr eventMap \<Rightarrow>
          outputEventMap_domains sourceRoot domainNames indentLevel
            (outputEventMap_entries eventMap indentLevel outputStr))"

definition outputEventMap :: "node \<Rightarrow> string list \<Rightarrow> nat \<Rightarrow> error + string" where
  "outputEventMap sourceRoot domainNames indentLevel =
     (case outputEventMap_domains sourceRoot domainNames indentLevel
             (newline indentLevel @ (''export interface '' @ OUTPUT_EVENTS_NAME @ '' {'')) of
        Inl e \<Rightarrow> Inl e
      | Inr outputStr \<Rightarrow> Inr (outputStr @ (newline indentLevel @ ''}'')))"

text \<open>\<^verbatim>\<open>outputCommandMap\<close>, in the same way, four lines per command.\<close>

fun outputCommandMap_entries :: "(string \<times> command_types) list \<Rightarrow> nat \<Rightarrow> string \<Rightarrow> string" where
  "outputCommandMap_entries [] indentLevel outputStr = outputStr"
| "outputCommandMap_entries ((commandName, types) # entries) indentLevel outputStr =
     outputCommandMap_entries entries indentLevel
       ((((outputStr @ (newline (indentLevel + 1) @ ([CHR 0x27] @ commandName @ [CHR 0x27] @ '': {'')))
          @ (newline (indentLevel + 2) @ (''paramsType: '' @ paramsType types @ '','')))
          @ (newline (indentLevel + 2) @ (''returnType: '' @ returnType types)))
          @ (newline (indentLevel + 1) @ ''};''))"

fun outputCommandMap_domains :: "node \<Rightarrow> string list \<Rightarrow> nat \<Rightarrow> string \<Rightarrow> error + string" where
  "outputCommandMap_domains sourceRoot [] indentLevel outputStr = Inr outputStr"
| "outputCommandMap_domains sourceRoot (domainName # domainNames) indentLevel outputStr =
     (case getCommandMap sourceRoot domainName of
        Inl e \<Rightarrow> Inl e
      | Inr commandsMap \<Rightarrow>
          outputCommandMap_domains sourceRoot domainNames indentLevel
            (outputCommandMap_entries commandsMap indentLevel outputStr))"

definition outputCommandMap :: "node \<Rightarrow> string list \<Rightarrow> nat \<Rightarrow> error + string" where
  "outputCommandMap sourceRoot domainNames indentLevel =
     (case outputCommandMap_domains sourceRoot domainNames indentLevel
             (newline indentLevel @ (''export interface '' @ OUTPUT_COMMANDS_NAME @ '' {'')) of
        Inl e \<Rightarrow> Inl e
      | Inr outputStr \<Rightarrow> Inr (outputStr @ (newline indentLevel @ ''}'')))"

text \<open>
  The top level of the script, from the parsed tree to the text it writes:
  \<^verbatim>\<open>crdpStr\<close> after its last \<^verbatim>\<open>+=\<close>.
\<close>

definition headerBlock :: string where
  \<open>headerBlock =
     ''/**\<newline>'' @
     '' * @license Copyright 2018 Google Inc. All Rights Reserved.\<newline>'' @
     '' * Licensed under the Apache License, Version 2.0 (the "License"); you may not use this file except in compliance with the License. You may obtain a copy of the License at http://www.apache.org/licenses/LICENSE-2.0\<newline>'' @
     '' * Unless required by applicable law or agreed to in writing, software distributed under the License is distributed on an "AS IS" BASIS, WITHOUT WARRANTIES OR CONDITIONS OF ANY KIND, either express or implied. See the License for the specific language governing permissions and limitations under the License.\<newline>'' @
     '' */\<newline>'' @
     ''\<newline>'' @
     ''// Generated by `yarn update:crdp-typings`\<newline>''\<close>

definition crdpStr :: "node \<Rightarrow> error + string" where
  "crdpStr sourceRoot =
     (case getCrdpDomainNames sourceRoot of
        Inl e \<Rightarrow> Inl e
      | Inr crdpDomainNames \<Rightarrow>
          (case outputEventMap sourceRoot crdpDomainNames 2 of
             Inl e \<Rightarrow> Inl e
           | Inr events \<Rightarrow>
               (case outputCommandMap sourceRoot crdpDomainNames 2 of
                  Inl e \<Rightarrow> Inl e
                | Inr commands \<Rightarrow>
                    Inr (headerBlock @
                      ''\<newline>declare global {\<newline>  module LH {'' @
                      events @ ''\<newline>'' @ commands @
                      ''\<newline>  }\<newline>}\<newline>\<newline>// empty export to keep file a module\<newline>export {}\<newline>''))))"

section \<open>Auxiliary notions for the statements\<close>

text \<open>
  The entries that a loop over the members stores, in order: those members for which
  the body of the loop returns an entry.
\<close>

definition stored_entries :: "('a \<Rightarrow> error + ('k \<times> 'v) option) \<Rightarrow> 'a list \<Rightarrow> ('k \<times> 'v) list" where
  "stored_entries body members =
     concat (map (\<lambda>member. case body member of Inr (Some entry) \<Rightarrow> [entry] | _ \<Rightarrow> []) members)"

text \<open>Storing a list of entries one after the other with \<^verbatim>\<open>Map.prototype.set\<close>.\<close>

fun set_all :: "('k \<times> 'v) list \<Rightarrow> ('k \<times> 'v) list \<Rightarrow> ('k \<times> 'v) list" where
  "set_all m [] = m"
| "set_all m ((k, v) # entries) = set_all (map_set k v m) entries"

text \<open>
  The text that the inner loop of \<^verbatim>\<open>outputEventMap\<close> appends for one entry of an
  event map, and the four lines that the inner loop of \<^verbatim>\<open>outputCommandMap\<close> appends
  for one entry of a command map.
\<close>

definition event_text :: "nat \<Rightarrow> string \<times> string \<Rightarrow> string" where
  "event_text indentLevel entry =
     newline (indentLevel + 1) @ [CHR 0x27] @ fst entry @ [CHR 0x27] @ '': '' @ snd entry @ '';''"

definition command_text :: "nat \<Rightarrow> string \<times> command_types \<Rightarrow> string" where
  "command_text indentLevel entry =
     newline (indentLevel + 1) @ [CHR 0x27] @ fst entry @ [CHR 0x27] @ '': {'' @
     newline (indentLevel + 2) @ ''paramsType: '' @ paramsType (snd entry) @ '','' @
     newline (indentLevel + 2) @ ''returnType: '' @ returnType (snd entry) @
     newline (indentLevel + 1) @ ''};''"

text \<open>
  Following the words of the specification, "the structural type \<open>T\<close> declared inside
  domain grouping \<open>D\<close>": the members of the interface named \<open>T\<close> among the
  declarations that stand directly in the body of a module, which is what a reference
  \<^verbatim>\<open>D.T\<close> denotes. The script does not compute this; it searches depth-first (see
  \<open>isWeakInterface\<close>).
\<close>

fun declared_interface :: "node list \<Rightarrow> string \<Rightarrow> type_element list option" where
  "declared_interface [] T = None"
| "declared_interface (InterfaceDeclaration n members # declarations) T =
     (if n = T then Some members else declared_interface declarations T)"
| "declared_interface (_ # declarations) T = declared_interface declarations T"

section \<open>A sample schema\<close>

text \<open>
  A small declaration file in the layout of the protocol's typings, used to run the
  theorems on a concrete input:
  \<^verbatim>\<open>
  declare module Crdp {
    interface CrdpClient { Network: any; }
    interface NetworkCommands {
      enable: () => Promise<void>;
      setCacheDisabled: (params: Network.SetCacheDisabledRequest) => Promise<void>;
      configure: (params: Network.EnableRequest) => Promise<Network.GetCertificateResponse>;
      mark: (params: Network.Marker) => Promise<void>;
    }
    interface NetworkClient {
      onRequestWillBeSent(listener: (params: Network.RequestWillBeSentEvent) => void): void;
      onLoadingFinished(listener: (params: Network.LoadingFinishedEvent) => void): void;
      onRequestWillBeSent(listener: () => void): void;
    }
    module Network {
      interface SetCacheDisabledRequest { cacheDisabled: boolean; }
      interface EnableRequest { maxTotalBufferSize?: number; maxResourceBufferSize?: number; }
      interface GetCertificateResponse { tableNames: string[]; }
      interface Marker { (): void; }
      interface RequestWillBeSentEvent { requestId: string; }
      interface LoadingFinishedEvent { requestId: string; }
    }
  }
  \<close>
\<close>

definition sample_promise :: "type_node \<Rightarrow> type_node" where
  "sample_promise payload = TypeReferenceNode (TypeReference (Identifier ''Promise'') (Some [payload]))"

definition sample_ref :: "string \<Rightarrow> string \<Rightarrow> type_node" where
  "sample_ref domain type = TypeReferenceNode (TypeReference (QualifiedName (Identifier domain) type) None)"

definition sample_command :: "string \<Rightarrow> parameter list \<Rightarrow> type_node \<Rightarrow> type_element" where
  "sample_command nm ps payload =
     PropertySignatureElement (PropertySignature (IdentifierName nm) None
       (Some (FunctionTypeNode (FunctionType ps (Some (sample_promise payload))))))"

definition sample_listener :: "string \<Rightarrow> parameter list \<Rightarrow> type_element" where
  "sample_listener nm ps =
     MethodSignatureElement (MethodSignature (IdentifierName nm)
       [Parameter (Some (FunctionTypeNode (FunctionType ps (Some VoidKeyword))))])"

definition sample_property :: "string \<Rightarrow> unit option \<Rightarrow> type_element" where
  "sample_property nm q = PropertySignatureElement (PropertySignature (IdentifierName nm) q (Some OtherTypeNode))"

definition networkTypes :: "node list" where
  "networkTypes =
     [InterfaceDeclaration ''SetCacheDisabledRequest'' [sample_property ''cacheDisabled'' None],
      InterfaceDeclaration ''EnableRequest''
        [sample_property ''maxTotalBufferSize'' (Some ()),
         sample_property ''maxResourceBufferSize'' (Some ())],
      InterfaceDeclaration ''GetCertificateResponse'' [sample_property ''tableNames'' None],
      InterfaceDeclaration ''Marker'' [OtherTypeElement],
      InterfaceDeclaration ''RequestWillBeSentEvent'' [sample_property ''requestId'' None],
      InterfaceDeclaration ''LoadingFinishedEvent'' [sample_property ''requestId'' None]]"

definition networkCommandsRest :: "type_element list" where
  "networkCommandsRest =
     [sample_command ''setCacheDisabled''
        [Parameter (Some (sample_ref ''Network'' ''SetCacheDisabledRequest''))] VoidKeyword,
      sample_command ''configure'' [Parameter (Some (sample_ref ''Network'' ''EnableRequest''))]
        (sample_ref ''Network'' ''GetCertificateResponse''),
      sample_command ''mark'' [Parameter (Some (sample_ref ''Network'' ''Marker''))] VoidKeyword]"

definition networkCommands :: "type_element list" where
  "networkCommands = sample_command ''enable'' [] VoidKeyword # networkCommandsRest"

definition networkClient :: "type_element list" where
  "networkClient =
     [sample_listener ''onRequestWillBeSent''
        [Parameter (Some (sample_ref ''Network'' ''RequestWillBeSentEvent''))],
      sample_listener ''onLoadingFinished''
        [Parameter (Some (sample_ref ''Network'' ''LoadingFinishedEvent''))],
      sample_listener ''onRequestWillBeSent'' []]"

definition sampleRoot :: node where
  "sampleRoot =
     OtherNode
       [ModuleDeclaration ''Crdp''
          [InterfaceDeclaration ''CrdpClient'' [sample_property ''Network'' None],
           InterfaceDeclaration ''NetworkCommands'' networkCommands,
           InterfaceDeclaration ''NetworkClient'' networkClient,
           ModuleDeclaration ''Network'' networkTypes]]"

text \<open>
  The sample schema with its declarations in another order and two unrelated nodes
  added: a different tree with the same domains, events and commands.
\<close>

definition paddedRoot :: node where
  "paddedRoot =
     OtherNode
       [OtherNode [],
        ModuleDeclaration ''Crdp''
          [InterfaceDeclaration ''Unrelated'' [sample_property ''Network'' None],
           ModuleDeclaration ''Network'' networkTypes,
           InterfaceDeclaration ''NetworkClient'' networkClient,
           InterfaceDeclaration ''CrdpClient'' [sample_property ''Network'' None],
           InterfaceDeclaration ''NetworkCommands'' networkCommands]]"

text \<open>
  A schema in which the module \<^verbatim>\<open>Network\<close> holds a nested module that declares
  interfaces of the same names as the module's own, before them:
  \<^verbatim>\<open>
  declare module Crdp {
    interface CrdpClient { Network: any; }
    interface NetworkCommands {
      configure: (params: Network.EnableRequest) => Promise<void>;
      mark: (params: Network.Marker) => Promise<void>;
    }
    interface NetworkClient { }
    module Network {
      module Detail {
        interface EnableRequest { id: string; }
        interface Marker { id: string; }
      }
      interface EnableRequest { maxTotalBufferSize?: number; }
      interface Marker { }
    }
  }
  \<close>
\<close>

definition shadowTypes :: "node list" where
  "shadowTypes =
     [ModuleDeclaration ''Detail''
        [InterfaceDeclaration ''EnableRequest'' [sample_property ''id'' None],
         InterfaceDeclaration ''Marker'' [sample_property ''id'' None]],
      InterfaceDeclaration ''EnableRequest'' [sample_property ''maxTotalBufferSize'' (Some ())],
      InterfaceDeclaration ''Marker'' []]"

definition shadowRoot :: node where
  "shadowRoot =
     OtherNode
       [ModuleDeclaration ''Crdp''
          [InterfaceDeclaration ''CrdpClient'' [sample_property ''Network'' None],
           InterfaceDeclaration ''NetworkCommands''
             [sample_command ''configure'' [Parameter (Some (sample_ref ''Network'' ''EnableRequest''))]
                VoidKeyword,
              sample_command ''mark'' [Parameter (Some (sample_ref ''Network'' ''Marker''))] VoidKeyword],
           InterfaceDeclaration ''NetworkClient'' [],
           ModuleDeclaration ''Network'' shadowTypes]]"

section \<open>The type-name resolver\<close>

text \<open>
  Claim C7. \<^verbatim>\<open>getTypeName\<close> has exactly three outcomes on a type reference: a
  two-part qualified name \<^verbatim>\<open>domain.type\<close> gives the pair of its parts; a name
  whose left part is itself qualified (three or more parts) fails with the error about
  a triple nested type name; a name that is a plain identifier fails with the error
  about an unexpected type node. Every type name has one of the three shapes.
\<close>

theorem getTypeName_outcomes:
  "(\<forall>domain type. typeName typeNode = QualifiedName (Identifier domain) type \<longrightarrow>
       getTypeName typeNode debugName = Inr (domain, type)) \<and>
   (\<forall>l r type. typeName typeNode = QualifiedName (QualifiedName l r) type \<longrightarrow>
       getTypeName typeNode debugName =
         Inl (Error (''unsupported triple nested type name in '' @ debugName))) \<and>
   (\<forall>t. typeName typeNode = Identifier t \<longrightarrow>
       getTypeName typeNode debugName = Inl (Error (''unexpected type node in '' @ debugName))) \<and>
   ((\<exists>domain type. typeName typeNode = QualifiedName (Identifier domain) type) \<or>
    (\<exists>l r type. typeName typeNode = QualifiedName (QualifiedName l r) type) \<or>
    (\<exists>t. typeName typeNode = Identifier t))"
proof -
  have shapes: "(\<exists>domain type. typeName typeNode = QualifiedName (Identifier domain) type) \<or>
    (\<exists>l r type. typeName typeNode = QualifiedName (QualifiedName l r) type) \<or>
    (\<exists>t. typeName typeNode = Identifier t)"
  proof (cases "typeName typeNode")
    case (Identifier t)
    then show ?thesis by simp
  next
    case (QualifiedName left right)
    then show ?thesis by (cases left) simp_all
  qed
  then show ?thesis by (auto simp: getTypeName_def)
qed

theorem getTypeName_outcomes_witness:
  "getTypeName (TypeReference (QualifiedName (Identifier ''Network'') ''Cookie'') None) ''Network.getCookies''
     = Inr (''Network'', ''Cookie'') \<and>
   getTypeName (TypeReference (QualifiedName (QualifiedName (Identifier ''Crdp'') ''Network'') ''Cookie'') None)
       ''Network.getCookies''
     = Inl (Error ''unsupported triple nested type name in Network.getCookies'') \<and>
   getTypeName (TypeReference (Identifier ''Cookie'') None) ''Network.getCookies''
     = Inl (Error ''unexpected type node in Network.getCookies'')"
  using
    getTypeName_outcomes [of "TypeReference (QualifiedName (Identifier ''Network'') ''Cookie'') None"
      "''Network.getCookies''"]
    getTypeName_outcomes [of
      "TypeReference (QualifiedName (QualifiedName (Identifier ''Crdp'') ''Network'') ''Cookie'') None"
      "''Network.getCookies''"]
    getTypeName_outcomes [of "TypeReference (Identifier ''Cookie'') None" "''Network.getCookies''"]
  by simp

section \<open>Listener names\<close>

lemma test_on_upper_length: "test_on_upper s \<Longrightarrow> 3 \<le> length s"
  by (cases s rule: test_on_upper.cases) simp_all

text \<open>
  Claim C9. A method name that passes the test \<^verbatim>\<open>/^on[A-Z]/\<close> has at least three
  characters, so the read of the character at index 2 and the slice from index 3 stay
  inside the string: the derivation of the event string returns its value, never the
  \<open>TypeError\<close> of the out-of-range branch.
\<close>

theorem listener_name_reads_in_bounds:
  "test_on_upper methodName \<Longrightarrow>
     3 \<le> length methodName \<and> 2 < length methodName \<and>
     eventString methodName = Inr (toLowerCase [methodName ! 2] @ drop 3 methodName) \<and>
     eventString methodName \<noteq> Inl TypeError"
  using test_on_upper_length [of methodName] by (simp add: eventString_def)

theorem listener_name_reads_in_bounds_witness:
  "test_on_upper ''onLoad'' \<and> 3 \<le> length ''onLoad'' \<and> eventString ''onLoad'' = Inr ''load''"
proof -
  have t: "test_on_upper ''onLoad''" by code_simp
  have l: "toLowerCase [''onLoad'' ! 2] @ drop 3 ''onLoad'' = ''load''" by code_simp
  show ?thesis using listener_name_reads_in_bounds [OF t] t l by simp
qed

section \<open>The shape of a listener\<close>

text \<open>
  Other shapes than one parameter of function type: two or more parameters fail with
  the error that reports their number, one parameter whose type is missing or is no
  function type fails with the error about an unexpected argument.
\<close>

lemma getEventListenerParamType_many:
  "1 < length ps \<Longrightarrow>
     getEventListenerParamType (MethodSignature nm ps) methodName =
       Inl (Error (''found '' @ show_nat (length ps) @ '' parameters passed to '' @ methodName @ ''.''))"
  by (simp add: getEventListenerParamType_def)

lemma getEventListenerParamType_not_function:
  "\<forall>f. ty \<noteq> Some (FunctionTypeNode f) \<Longrightarrow>
     getEventListenerParamType (MethodSignature nm [Parameter ty]) methodName =
       Inl (Error (''found unexpected argument passed to '' @ methodName @ ''.''))"
  by (auto simp: getEventListenerParamType_def split: option.splits type_node.splits)

text \<open>
  Claim C3 says that a listener method with no parameter fails the shape check with
  the controlled error of the script. The script reads \<^verbatim>\<open>parameters[0].type\<close> after
  excluding only more than one parameter, so for no parameter the result is the
  engine's \<open>TypeError\<close>, for every method name.
\<close>

theorem zero_parameter_listener_TypeError:
  "getEventListenerParamType (MethodSignature nm []) methodName = Inl TypeError \<and>
   (\<forall>msg. getEventListenerParamType (MethodSignature nm []) methodName \<noteq> Inl (Error msg))"
  by (simp add: getEventListenerParamType_def)

section \<open>The promised return type\<close>

lemma length_one_conv: "length args = Suc 0 \<longleftrightarrow> (\<exists>p. args = [p])"
  by (cases args) auto

text \<open>
  Claim C4. \<^verbatim>\<open>getPromisedReturnType\<close> fails with an error of the script exactly
  when the return type is missing, or is no type reference named \<^verbatim>\<open>Promise\<close>, or
  has no type arguments, or has a number of type arguments other than one, or its one
  argument is neither the \<^verbatim>\<open>void\<close> keyword nor a type reference with a two-part
  qualified name. It never fails in another way, and otherwise it returns the payload:
  \<^verbatim>\<open>void\<close>, or \<^verbatim>\<open>domain.type\<close>.
\<close>

theorem getPromisedReturnType_fails_iff:
  "((\<exists>msg. getPromisedReturnType functionNode debugName = Inl (Error msg)) \<longleftrightarrow>
      (return_type functionNode = None
       \<or> (\<exists>ty. return_type functionNode = Some ty \<and>
            (case ty of
               TypeReferenceNode r \<Rightarrow>
                 typeName r \<noteq> Identifier ''Promise''
                 \<or> typeArguments r = None
                 \<or> (\<exists>args. typeArguments r = Some args \<and> length args \<noteq> 1)
                 \<or> (\<exists>p. typeArguments r = Some [p] \<and> p \<noteq> VoidKeyword \<and>
                       (\<forall>q domain type. p = TypeReferenceNode q \<longrightarrow>
                          typeName q \<noteq> QualifiedName (Identifier domain) type))
             | _ \<Rightarrow> True)))) \<and>
   (getPromisedReturnType functionNode debugName \<noteq> Inl TypeError) \<and>
   (\<forall>r. return_type functionNode = Some (TypeReferenceNode r) \<and>
        typeName r = Identifier ''Promise'' \<and> typeArguments r = Some [VoidKeyword] \<longrightarrow>
        getPromisedReturnType functionNode debugName = Inr ''void'') \<and>
   (\<forall>r q domain type. return_type functionNode = Some (TypeReferenceNode r) \<and>
        typeName r = Identifier ''Promise'' \<and> typeArguments r = Some [TypeReferenceNode q] \<and>
        typeName q = QualifiedName (Identifier domain) type \<longrightarrow>
        getPromisedReturnType functionNode debugName = Inr (domain @ ''.'' @ type))"
  apply (cases functionNode)
  apply (auto simp: getPromisedReturnType_def getTypeName_def length_one_conv
      split: option.splits type_node.splits entity_name.splits if_splits prod.splits sum.splits)
  done

theorem getPromisedReturnType_fails_iff_witness:
  "getPromisedReturnType (FunctionType [] (Some (TypeReferenceNode
      (TypeReference (Identifier ''Promise'') (Some [VoidKeyword]))))) ''Network.enable'' = Inr ''void'' \<and>
   getPromisedReturnType (FunctionType [] (Some (TypeReferenceNode
      (TypeReference (Identifier ''Promise'') (Some [TypeReferenceNode
         (TypeReference (QualifiedName (Identifier ''Network'') ''Cookie'') None)]))))) ''Network.get''
     = Inr ''Network.Cookie'' \<and>
   (\<exists>msg. getPromisedReturnType (FunctionType [] None) ''Network.enable'' = Inl (Error msg)) \<and>
   (\<exists>msg. getPromisedReturnType (FunctionType [] (Some (TypeReferenceNode
      (TypeReference (Identifier ''Promise'') (Some [VoidKeyword, VoidKeyword]))))) ''Network.enable''
     = Inl (Error msg))"
  using
    getPromisedReturnType_fails_iff [of "FunctionType [] (Some (TypeReferenceNode
      (TypeReference (Identifier ''Promise'') (Some [VoidKeyword]))))" "''Network.enable''"]
    getPromisedReturnType_fails_iff [of "FunctionType [] (Some (TypeReferenceNode
      (TypeReference (Identifier ''Promise'') (Some [TypeReferenceNode
         (TypeReference (QualifiedName (Identifier ''Network'') ''Cookie'') None)]))))" "''Network.get''"]
    getPromisedReturnType_fails_iff [of "FunctionType [] None" "''Network.enable''"]
    getPromisedReturnType_fails_iff [of "FunctionType [] (Some (TypeReferenceNode
      (TypeReference (Identifier ''Promise'') (Some [VoidKeyword, VoidKeyword]))))" "''Network.enable''"]
  by simp

section \<open>Ordered maps\<close>

lemma map_of_map_set: "map_of (map_set k v m) = (map_of m)(k \<mapsto> v)"
  by (induction m) (auto simp: fun_eq_iff)

lemma keys_map_set:
  "map fst (map_set k v m) = (if k \<in> set (map fst m) then map fst m else map fst m @ [k])"
  by (induction m) force+

lemma distinct_map_set: "distinct (map fst m) \<Longrightarrow> distinct (map fst (map_set k v m))"
  by (simp add: keys_map_set)

lemma set_all_snoc: "set_all m (entries @ [(k, v)]) = map_set k v (set_all m entries)"
  by (induction entries arbitrary: m) auto

lemma map_of_set_all: "map_of (set_all m entries) = map_of m ++ map_of (rev entries)"
  by (induction entries arbitrary: m) (auto simp: map_of_map_set)

lemma first_occurrences_snoc:
  "rev (remdups (rev (ks @ [k]))) =
     (if k \<in> set ks then rev (remdups (rev ks)) else rev (remdups (rev ks)) @ [k])"
  by simp

lemma keys_set_all:
  "distinct (map fst m) \<Longrightarrow>
     map fst (set_all m entries) = rev (remdups (rev (map fst m @ map fst entries)))"
proof (induction entries rule: rev_induct)
  case Nil
  then show ?case by (simp add: distinct_remdups_id)
next
  case (snoc e entries)
  obtain k v where e: "e = (k, v)" by (cases e)
  let ?K = "map fst m @ map fst entries"
  have IH: "map fst (set_all m entries) = rev (remdups (rev ?K))"
    using snoc.prems by (rule snoc.IH)
  have mem: "k \<in> set (rev (remdups (rev ?K))) \<longleftrightarrow> k \<in> set ?K"
    by (simp only: set_rev set_remdups)
  have "map fst (set_all m (entries @ [e])) =
      (if k \<in> set ?K then rev (remdups (rev ?K)) else rev (remdups (rev ?K)) @ [k])"
    by (simp only: e set_all_snoc keys_map_set mem IH)
  also have "\<dots> = rev (remdups (rev (?K @ [k])))"
    by (rule first_occurrences_snoc [symmetric])
  also have "?K @ [k] = map fst m @ map fst (entries @ [e])"
    by (simp add: e)
  finally show ?case .
qed

lemma distinct_keys_set_all: "distinct (map fst m) \<Longrightarrow> distinct (map fst (set_all m entries))"
  by (simp add: keys_set_all)

lemma one_entry_per_key:
  "distinct (map fst m) \<Longrightarrow> k \<in> set (map fst m) \<Longrightarrow> length (filter (\<lambda>e. fst e = k) m) = 1"
  by (induction m) (auto simp: filter_empty_conv image_iff)

lemma last_write_wins:
  "k \<notin> fst ` set post \<Longrightarrow> map_of (set_all m (pre @ (k, v) # post)) k = Some v"
  by (simp add: map_of_set_all map_add_Some_iff map_of_eq_None_iff)

section \<open>The two loops\<close>

lemma getEventMap_members_ok:
  "getEventMap_members domainName members m0 = Inr m \<Longrightarrow>
     \<forall>member\<in>set members. \<exists>r. getEventMap_member domainName member = Inr r"
  by (induction members arbitrary: m0) (auto split: sum.splits option.splits)

lemma getEventMap_members_set_all:
  "\<forall>member\<in>set members. \<exists>r. getEventMap_member domainName member = Inr r \<Longrightarrow>
     getEventMap_members domainName members m0 =
       Inr (set_all m0 (stored_entries (getEventMap_member domainName) members))"
  by (induction members arbitrary: m0) (auto simp: stored_entries_def split: sum.splits option.splits)

lemma getCommandMap_members_ok:
  "getCommandMap_members sourceRoot domainName members m0 = Inr m \<Longrightarrow>
     \<forall>member\<in>set members. \<exists>r. getCommandMap_member sourceRoot domainName member = Inr r"
  by (induction members arbitrary: m0) (auto split: sum.splits option.splits)

lemma getCommandMap_members_set_all:
  "\<forall>member\<in>set members. \<exists>r. getCommandMap_member sourceRoot domainName member = Inr r \<Longrightarrow>
     getCommandMap_members sourceRoot domainName members m0 =
       Inr (set_all m0 (stored_entries (getCommandMap_member sourceRoot domainName) members))"
  by (induction members arbitrary: m0) (auto simp: stored_entries_def split: sum.splits option.splits)

lemma stored_entries_append:
  "stored_entries body (xs @ ys) = stored_entries body xs @ stored_entries body ys"
  by (simp add: stored_entries_def)

lemma stored_entries_member:
  "member \<in> set members \<Longrightarrow> body member = Inr (Some (k, v)) \<Longrightarrow>
     k \<in> fst ` set (stored_entries body members)"
  by (force simp: stored_entries_def)

lemma stored_entries_key:
  "k \<in> fst ` set (stored_entries body members) \<Longrightarrow>
     \<exists>member\<in>set members. \<exists>v. body member = Inr (Some (k, v))"
proof -
  assume "k \<in> fst ` set (stored_entries body members)"
  then obtain v where "(k, v) \<in> set (stored_entries body members)" by auto
  then obtain member where "member \<in> set members"
    and "(k, v) \<in> set (case body member of Inr (Some entry) \<Rightarrow> [entry] | _ \<Rightarrow> [])"
    by (auto simp: stored_entries_def)
  then show ?thesis
    by (cases "body member") (auto split: option.splits)
qed

lemma stored_entries_Cons_Some:
  "body member = Inr (Some entry) \<Longrightarrow>
     stored_entries body (pre @ member # post) = stored_entries body pre @ entry # stored_entries body post"
  by (simp add: stored_entries_def)

section \<open>The sample schema, evaluated\<close>

lemma sample_NetworkClient:
  "findFirstInterfaceOrModule sampleRoot (''Network'' @ ''Client'') =
     Some (InterfaceDeclaration ''NetworkClient'' networkClient)"
  by (simp add: findFirstInterfaceOrModule_def sampleRoot_def)

lemma sample_NetworkCommands:
  "findFirstInterfaceOrModule sampleRoot ''NetworkCommands'' =
     Some (InterfaceDeclaration ''NetworkCommands'' networkCommands)"
  by (simp add: findFirstInterfaceOrModule_def sampleRoot_def)

lemma sample_Network:
  "findFirstInterfaceOrModule sampleRoot ''Network'' = Some (ModuleDeclaration ''Network'' networkTypes)"
  by (simp add: findFirstInterfaceOrModule_def sampleRoot_def)

lemma sample_EnableRequest:
  "findFirstInterfaceOrModule (ModuleDeclaration ''Network'' networkTypes) ''EnableRequest'' =
     Some (InterfaceDeclaration ''EnableRequest''
        [sample_property ''maxTotalBufferSize'' (Some ()),
         sample_property ''maxResourceBufferSize'' (Some ())])"
  by (simp add: findFirstInterfaceOrModule_def networkTypes_def)

lemma sample_SetCacheDisabledRequest:
  "findFirstInterfaceOrModule (ModuleDeclaration ''Network'' networkTypes) ''SetCacheDisabledRequest'' =
     Some (InterfaceDeclaration ''SetCacheDisabledRequest'' [sample_property ''cacheDisabled'' None])"
  by (simp add: findFirstInterfaceOrModule_def networkTypes_def)

lemma sample_Marker:
  "findFirstInterfaceOrModule (ModuleDeclaration ''Network'' networkTypes) ''Marker'' =
     Some (InterfaceDeclaration ''Marker'' [OtherTypeElement])"
  by (simp add: findFirstInterfaceOrModule_def networkTypes_def)

lemma sample_getEventMap:
  "getEventMap sampleRoot ''Network'' =
     Inr [(''Network.requestWillBeSent'', ''void''),
          (''Network.loadingFinished'', ''Crdp.Network.LoadingFinishedEvent'')]"
  by code_simp

lemma sample_getCommandMap:
  "getCommandMap sampleRoot ''Network'' =
     Inr [(''Network.enable'', \<lparr>paramsType = ''void'', returnType = ''void''\<rparr>),
          (''Network.setCacheDisabled'',
             \<lparr>paramsType = ''Crdp.Network.SetCacheDisabledRequest'', returnType = ''void''\<rparr>),
          (''Network.configure'',
             \<lparr>paramsType = ''void | Crdp.Network.EnableRequest'',
              returnType = ''Crdp.Network.GetCertificateResponse''\<rparr>),
          (''Network.mark'', \<lparr>paramsType = ''void | Crdp.Network.Marker'', returnType = ''void''\<rparr>)]"
  by code_simp


lemma sample_toLowerCase_L: "toLowerCase_char (CHR ''L'') = CHR ''l''"
  by code_simp

lemma sample_outputEventMap:
  "outputEventMap sampleRoot [''Network''] 2 =
     Inr (''\<newline>    export interface CrdpEvents {'' @
          ''\<newline>      '' @ [CHR 0x27] @ ''Network.requestWillBeSent'' @ [CHR 0x27] @ '': void;'' @
          ''\<newline>      '' @ [CHR 0x27] @ ''Network.loadingFinished'' @ [CHR 0x27] @ '': Crdp.Network.LoadingFinishedEvent;'' @
          ''\<newline>    }'')"
  by code_simp

lemma sample_outputCommandMap:
  "outputCommandMap sampleRoot [''Network''] 2 =
     Inr (''\<newline>    export interface CrdpCommands {'' @
          ''\<newline>      '' @ [CHR 0x27] @ ''Network.enable'' @ [CHR 0x27] @ '': {'' @
          ''\<newline>        paramsType: void,'' @
          ''\<newline>        returnType: void'' @
          ''\<newline>      };'' @
          ''\<newline>      '' @ [CHR 0x27] @ ''Network.setCacheDisabled'' @ [CHR 0x27] @ '': {'' @
          ''\<newline>        paramsType: Crdp.Network.SetCacheDisabledRequest,'' @
          ''\<newline>        returnType: void'' @
          ''\<newline>      };'' @
          ''\<newline>      '' @ [CHR 0x27] @ ''Network.configure'' @ [CHR 0x27] @ '': {'' @
          ''\<newline>        paramsType: void | Crdp.Network.EnableRequest,'' @
          ''\<newline>        returnType: Crdp.Network.GetCertificateResponse'' @
          ''\<newline>      };'' @
          ''\<newline>      '' @ [CHR 0x27] @ ''Network.mark'' @ [CHR 0x27] @ '': {'' @
          ''\<newline>        paramsType: void | Crdp.Network.Marker,'' @
          ''\<newline>        returnType: void'' @
          ''\<newline>      };'' @
          ''\<newline>    }'')"
  by code_simp

lemma sample_domains: "getCrdpDomainNames sampleRoot = Inr [''Network'']"
  by code_simp

lemma shadow_Network:
  "findFirstInterfaceOrModule shadowRoot ''Network'' = Some (ModuleDeclaration ''Network'' shadowTypes)"
  by (simp add: findFirstInterfaceOrModule_def shadowRoot_def)

lemma shadow_getCommandMap:
  "getCommandMap shadowRoot ''Network'' =
     Inr [(''Network.configure'', \<lparr>paramsType = ''Crdp.Network.EnableRequest'', returnType = ''void''\<rparr>),
          (''Network.mark'', \<lparr>paramsType = ''Crdp.Network.Marker'', returnType = ''void''\<rparr>)]"
  by code_simp

lemma shadow_outputCommandMap:
  "outputCommandMap shadowRoot [''Network''] 2 =
     Inr (''\<newline>    export interface CrdpCommands {'' @
          ''\<newline>      '' @ [CHR 0x27] @ ''Network.configure'' @ [CHR 0x27] @ '': {'' @
          ''\<newline>        paramsType: Crdp.Network.EnableRequest,'' @
          ''\<newline>        returnType: void'' @
          ''\<newline>      };'' @
          ''\<newline>      '' @ [CHR 0x27] @ ''Network.mark'' @ [CHR 0x27] @ '': {'' @
          ''\<newline>        paramsType: Crdp.Network.Marker,'' @
          ''\<newline>        returnType: void'' @
          ''\<newline>      };'' @
          ''\<newline>    }'')"
  by code_simp

lemma padded_domains: "getCrdpDomainNames paddedRoot = Inr [''Network'']"
  by code_simp

lemma padded_getEventMap:
  "getEventMap paddedRoot ''Network'' =
     Inr [(''Network.requestWillBeSent'', ''void''),
          (''Network.loadingFinished'', ''Crdp.Network.LoadingFinishedEvent'')]"
  by code_simp

lemma padded_getCommandMap:
  "getCommandMap paddedRoot ''Network'' =
     Inr [(''Network.enable'', \<lparr>paramsType = ''void'', returnType = ''void''\<rparr>),
          (''Network.setCacheDisabled'',
             \<lparr>paramsType = ''Crdp.Network.SetCacheDisabledRequest'', returnType = ''void''\<rparr>),
          (''Network.configure'',
             \<lparr>paramsType = ''void | Crdp.Network.EnableRequest'',
              returnType = ''Crdp.Network.GetCertificateResponse''\<rparr>),
          (''Network.mark'', \<lparr>paramsType = ''void | Crdp.Network.Marker'', returnType = ''void''\<rparr>)]"
  by code_simp

section \<open>The event map\<close>

lemma getEventMap_found:
  "findFirstInterfaceOrModule sourceRoot (domainName @ ''Client'') = Some (InterfaceDeclaration n members) \<Longrightarrow>
   getEventMap sourceRoot domainName = getEventMap_members domainName members []"
  by (simp add: getEventMap_def)

lemma test_on_upper_shape:
  "test_on_upper s \<Longrightarrow> \<exists>c rest. s = CHR ''o'' # CHR ''n'' # c # rest \<and> isUpperAZ c"
  by (cases s rule: test_on_upper.cases) simp_all

lemma toLowerCase_char_lower: "isUpperAZ c \<Longrightarrow> isLowerAZ (toLowerCase_char c)"
  by (simp add: isUpperAZ_def isLowerAZ_def toLowerCase_char_def)

lemma getEventMap_member_key:
  assumes "method_name ms = IdentifierName (CHR ''o'' # CHR ''n'' # c # rest)"
    and "isUpperAZ c"
    and "getEventMap_member domainName (MethodSignatureElement ms) = Inr r"
  shows "\<exists>eventType. r = Some (domainName @ ''.'' @ toLowerCase_char c # rest, eventType)"
  using assms
  by (auto simp: getEventMap_member_def eventString_def toLowerCase_def Let_def
      split: sum.splits option.splits if_splits prod.splits)

text \<open>
  Claim C2. Let the interface \<^verbatim>\<open>DClient\<close> of a domain \<open>D\<close> be found and let
  \<^verbatim>\<open>getEventMap\<close> return an event map. Then every method signature among its
  members whose name passes the test \<^verbatim>\<open>/^on[A-Z]/\<close> has a name of the form
  \<^verbatim>\<open>on\<close>, a character \<open>c\<close>, a rest; the event map has exactly one entry whose key
  is \<open>D\<close>, a dot, the lower-cased \<open>c\<close> and the rest unchanged; and the lower-cased
  \<open>c\<close>, the first character of the event name, is a lower-case letter. This holds
  for every domain name, so for the enumerated ones.
\<close>

theorem listener_method_one_entry:
  assumes found: "findFirstInterfaceOrModule sourceRoot (D @ ''Client'') =
      Some (InterfaceDeclaration n members)"
    and result: "getEventMap sourceRoot D = Inr eventMap"
    and member: "MethodSignatureElement ms \<in> set members"
    and name: "method_name ms = IdentifierName methodName"
    and test: "test_on_upper methodName"
  shows "\<exists>c rest. methodName = ''on'' @ c # rest \<and>
     length (filter (\<lambda>entry. fst entry = D @ ''.'' @ toLowerCase_char c # rest) eventMap) = 1 \<and>
     isLowerAZ (toLowerCase_char c)"
proof -
  obtain c rest where shape: "methodName = CHR ''o'' # CHR ''n'' # c # rest" and upper: "isUpperAZ c"
    using test_on_upper_shape [OF test] by blast
  have loop: "getEventMap_members D members [] = Inr eventMap"
    using result getEventMap_found [OF found] by simp
  have ok: "\<forall>member\<in>set members. \<exists>r. getEventMap_member D member = Inr r"
    using loop by (rule getEventMap_members_ok)
  then obtain r where r: "getEventMap_member D (MethodSignatureElement ms) = Inr r"
    using member by blast
  obtain eventType where entry:
    "getEventMap_member D (MethodSignatureElement ms) = Inr (Some (D @ ''.'' @ toLowerCase_char c # rest, eventType))"
    using getEventMap_member_key [OF name [unfolded shape] upper r] r by blast
  have eq: "eventMap = set_all [] (stored_entries (getEventMap_member D) members)"
    using getEventMap_members_set_all [OF ok, of "[]"] loop by simp
  have dist: "distinct (map fst eventMap)"
    unfolding eq by (rule distinct_keys_set_all) simp
  have "D @ ''.'' @ toLowerCase_char c # rest \<in> fst ` set (stored_entries (getEventMap_member D) members)"
    using member entry by (rule stored_entries_member)
  then have key: "D @ ''.'' @ toLowerCase_char c # rest \<in> set (map fst eventMap)"
    unfolding eq by (simp add: keys_set_all)
  have "length (filter (\<lambda>entry. fst entry = D @ ''.'' @ toLowerCase_char c # rest) eventMap) = 1"
    using dist key by (rule one_entry_per_key)
  then show ?thesis using shape toLowerCase_char_lower [OF upper] by auto
qed

theorem listener_method_one_entry_witness:
  "getEventMap sampleRoot ''Network'' =
     Inr [(''Network.requestWillBeSent'', ''void''),
          (''Network.loadingFinished'', ''Crdp.Network.LoadingFinishedEvent'')] \<and>
   length (filter (\<lambda>entry. fst entry = ''Network.loadingFinished'')
     [(''Network.requestWillBeSent'', ''void''),
      (''Network.loadingFinished'', ''Crdp.Network.LoadingFinishedEvent'')]) = 1 \<and>
   isLowerAZ (CHR ''l'')"
proof -
  let ?ms = "MethodSignature (IdentifierName ''onLoadingFinished'')
       [Parameter (Some (FunctionTypeNode (FunctionType
          [Parameter (Some (sample_ref ''Network'' ''LoadingFinishedEvent''))] (Some VoidKeyword))))]"
  have member: "MethodSignatureElement ?ms \<in> set networkClient"
    by (simp add: networkClient_def sample_listener_def)
  have name: "method_name ?ms = IdentifierName ''onLoadingFinished''" by simp
  have test: "test_on_upper ''onLoadingFinished''" by code_simp
  from listener_method_one_entry [OF sample_NetworkClient sample_getEventMap member name test]
  obtain c rest where shape: "''onLoadingFinished'' = ''on'' @ c # rest"
    and one: "length (filter (\<lambda>entry. fst entry = ''Network'' @ ''.'' @ toLowerCase_char c # rest)
       [(''Network.requestWillBeSent'', ''void''),
        (''Network.loadingFinished'', ''Crdp.Network.LoadingFinishedEvent'')]) = 1"
    and lower: "isLowerAZ (toLowerCase_char c)"
    by blast
  from shape have c: "c = CHR ''L''" and rest: "rest = ''oadingFinished''" by simp_all
  show ?thesis
    using one lower sample_getEventMap unfolding c rest sample_toLowerCase_L by simp
qed




section \<open>The rendering loops in closed form\<close>

lemma outputEventMap_entries_text:
  "outputEventMap_entries entries indentLevel outputStr =
     outputStr @ concat (map (event_text indentLevel) entries)"
  by (induction entries arbitrary: outputStr) (auto simp: event_text_def)

lemma outputCommandMap_entries_text:
  "outputCommandMap_entries entries indentLevel outputStr =
     outputStr @ concat (map (command_text indentLevel) entries)"
  by (induction entries arbitrary: outputStr) (auto simp: command_text_def)

lemma outputEventMap_domains_iff:
  "outputEventMap_domains sourceRoot domainNames indentLevel outputStr = Inr s \<longleftrightarrow>
     (\<exists>maps. list_all2 (\<lambda>d m. getEventMap sourceRoot d = Inr m) domainNames maps \<and>
        s = outputStr @ concat (map (event_text indentLevel) (concat maps)))"
proof (induction domainNames arbitrary: outputStr)
  case Nil
  then show ?case by auto
next
  case (Cons d ds)
  show ?case
  proof (cases "getEventMap sourceRoot d")
    case (Inl e)
    then show ?thesis by (auto simp: list_all2_Cons1)
  next
    case (Inr m)
    then show ?thesis
      by (auto simp: Cons.IH list_all2_Cons1 outputEventMap_entries_text)
  qed
qed

lemma outputCommandMap_domains_iff:
  "outputCommandMap_domains sourceRoot domainNames indentLevel outputStr = Inr s \<longleftrightarrow>
     (\<exists>maps. list_all2 (\<lambda>d m. getCommandMap sourceRoot d = Inr m) domainNames maps \<and>
        s = outputStr @ concat (map (command_text indentLevel) (concat maps)))"
proof (induction domainNames arbitrary: outputStr)
  case Nil
  then show ?case by auto
next
  case (Cons d ds)
  show ?case
  proof (cases "getCommandMap sourceRoot d")
    case (Inl e)
    then show ?thesis by (auto simp: list_all2_Cons1)
  next
    case (Inr m)
    then show ?thesis
      by (auto simp: Cons.IH list_all2_Cons1 outputCommandMap_entries_text)
  qed
qed

lemma outputEventMap_iff:
  "outputEventMap sourceRoot domainNames indentLevel = Inr s \<longleftrightarrow>
     (\<exists>maps. list_all2 (\<lambda>d m. getEventMap sourceRoot d = Inr m) domainNames maps \<and>
        s = newline indentLevel @ ''export interface CrdpEvents {'' @
            concat (map (event_text indentLevel) (concat maps)) @ newline indentLevel @ ''}'')"
proof -
  have "outputEventMap sourceRoot domainNames indentLevel = Inr s \<longleftrightarrow>
      (\<exists>t. outputEventMap_domains sourceRoot domainNames indentLevel
              (newline indentLevel @ ''export interface CrdpEvents {'') = Inr t \<and>
           s = t @ newline indentLevel @ ''}'')"
    by (auto simp: outputEventMap_def OUTPUT_EVENTS_NAME_def split: sum.splits)
  then show ?thesis
    by (auto simp: outputEventMap_domains_iff)
qed

lemma outputCommandMap_iff:
  "outputCommandMap sourceRoot domainNames indentLevel = Inr s \<longleftrightarrow>
     (\<exists>maps. list_all2 (\<lambda>d m. getCommandMap sourceRoot d = Inr m) domainNames maps \<and>
        s = newline indentLevel @ ''export interface CrdpCommands {'' @
            concat (map (command_text indentLevel) (concat maps)) @ newline indentLevel @ ''}'')"
proof -
  have "outputCommandMap sourceRoot domainNames indentLevel = Inr s \<longleftrightarrow>
      (\<exists>t. outputCommandMap_domains sourceRoot domainNames indentLevel
              (newline indentLevel @ ''export interface CrdpCommands {'') = Inr t \<and>
           s = t @ newline indentLevel @ ''}'')"
    by (auto simp: outputCommandMap_def OUTPUT_COMMANDS_NAME_def split: sum.splits)
  then show ?thesis
    by (auto simp: outputCommandMap_domains_iff)
qed

lemma outputEventMap_domains_cong:
  "\<forall>d\<in>set domainNames. getEventMap sourceRoot d = getEventMap sourceRoot' d \<Longrightarrow>
     outputEventMap_domains sourceRoot domainNames indentLevel outputStr =
     outputEventMap_domains sourceRoot' domainNames indentLevel outputStr"
  by (induction domainNames arbitrary: outputStr) (auto split: sum.splits)

lemma outputCommandMap_domains_cong:
  "\<forall>d\<in>set domainNames. getCommandMap sourceRoot d = getCommandMap sourceRoot' d \<Longrightarrow>
     outputCommandMap_domains sourceRoot domainNames indentLevel outputStr =
     outputCommandMap_domains sourceRoot' domainNames indentLevel outputStr"
  by (induction domainNames arbitrary: outputStr) (auto split: sum.splits)

lemma list_all2_member:
  "list_all2 P xs ys \<Longrightarrow> x \<in> set xs \<Longrightarrow> \<exists>y\<in>set ys. P x y"
  by (induction rule: list_all2_induct) auto

lemma concat_map_contains:
  "x \<in> set xs \<Longrightarrow> \<exists>before after. concat (map f xs) = before @ f x @ after"
proof -
  assume "x \<in> set xs"
  then obtain ys zs where "xs = ys @ x # zs" by (auto dest: split_list)
  then have "concat (map f xs) = concat (map f ys) @ f x @ concat (map f zs)" by simp
  then show ?thesis by blast
qed

lemma outputCommandMap_contains:
  assumes out: "outputCommandMap sourceRoot domainNames indentLevel = Inr s"
    and dom: "domainName \<in> set domainNames"
    and res: "getCommandMap sourceRoot domainName = Inr commandMap"
    and entry: "entry \<in> set commandMap"
  shows "\<exists>before after. s = before @ command_text indentLevel entry @ after"
proof -
  from out obtain maps where all: "list_all2 (\<lambda>d m. getCommandMap sourceRoot d = Inr m) domainNames maps"
    and s: "s = newline indentLevel @ ''export interface CrdpCommands {'' @
            concat (map (command_text indentLevel) (concat maps)) @ newline indentLevel @ ''}''"
    unfolding outputCommandMap_iff by blast
  from list_all2_member [OF all dom] res have "commandMap \<in> set maps" by auto
  with entry have "entry \<in> set (concat maps)" by auto
  from concat_map_contains [OF this, of "command_text indentLevel"]
  obtain b a where "concat (map (command_text indentLevel) (concat maps)) =
      b @ command_text indentLevel entry @ a" by blast
  then have "s = (newline indentLevel @ ''export interface CrdpCommands {'' @ b) @
      command_text indentLevel entry @ (a @ newline indentLevel @ ''}'')"
    unfolding s by simp
  then show ?thesis by blast
qed

section \<open>The command map\<close>

lemma getCommandMap_found:
  "findFirstInterfaceOrModule sourceRoot (domainName @ ''Commands'') = Some (InterfaceDeclaration n members) \<Longrightarrow>
   getCommandMap sourceRoot domainName = getCommandMap_members sourceRoot domainName members []"
  by (simp add: getCommandMap_def)

lemma every_iff: "every p xs \<longleftrightarrow> (\<forall>x\<in>set xs. p x)"
  by (induction xs) auto

lemma optional_or_no_property_iff:
  "optional_or_no_property m \<longleftrightarrow> (\<forall>ps. m = PropertySignatureElement ps \<longrightarrow> questionToken ps \<noteq> None)"
  by (cases m) auto

lemma isWeakInterface_found:
  "findFirstInterfaceOrModule sourceRoot D = Some (ModuleDeclaration dn children) \<Longrightarrow>
   findFirstInterfaceOrModule (ModuleDeclaration dn children) T = Some (InterfaceDeclaration n members) \<Longrightarrow>
   isWeakInterface sourceRoot D T = Inr (every optional_or_no_property members)"
  by (simp add: isWeakInterface_def)

lemma getParamType_one_reference:
  "parameters commandFn = [Parameter (Some (TypeReferenceNode ref))] \<Longrightarrow>
   getParamType commandFn commandName = Inr (Some ref)"
  by (simp add: getParamType_def)

lemma getTypeName_two_part:
  "typeName ref = QualifiedName (Identifier D) T \<Longrightarrow> getTypeName ref debugName = Inr (D, T)"
  by (simp add: getTypeName_def)

lemma getCommandMap_paramsType_found:
  assumes "parameters commandFn = [Parameter (Some (TypeReferenceNode ref))]"
    and "typeName ref = QualifiedName (Identifier D) T"
    and "findFirstInterfaceOrModule sourceRoot D = Some (ModuleDeclaration dn children)"
    and "findFirstInterfaceOrModule (ModuleDeclaration dn children) T = Some (InterfaceDeclaration n members)"
  shows "getCommandMap_paramsType sourceRoot commandFn commandName =
     Inr (if every optional_or_no_property members
          then ''void | '' @ (''Crdp.'' @ D @ ''.'' @ T) else ''Crdp.'' @ D @ ''.'' @ T)"
  using assms
  by (simp add: getCommandMap_paramsType_def getParamType_one_reference getTypeName_two_part
      isWeakInterface_found)

lemma getCommandMap_member_entry:
  assumes "prop_name p = IdentifierName t"
    and "prop_type p = Some (FunctionTypeNode commandFn)"
    and "getCommandMap_paramsType sourceRoot commandFn (domainName @ ''.'' @ t) = Inr pt"
    and "getPromisedReturnType commandFn (domainName @ ''.'' @ t) = Inr r"
  shows "getCommandMap_member sourceRoot domainName (PropertySignatureElement p) =
     Inr (Some (domainName @ ''.'' @ t,
       \<lparr>paramsType = pt, returnType = (if r = ''void'' then ''void'' else ''Crdp.'' @ r)\<rparr>))"
  using assms by (simp add: getCommandMap_member_def)

lemma getCommandMap_member_key:
  "getCommandMap_member sourceRoot domainName member = Inr (Some (k, v)) \<Longrightarrow>
     \<exists>ps t. member = PropertySignatureElement ps \<and> prop_name ps = IdentifierName t \<and>
       k = domainName @ ''.'' @ t"
  by (auto simp: getCommandMap_member_def Let_def
      split: type_element.splits property_name.splits option.splits type_node.splits sum.splits)




lemma getCommandMap_later_keys:
  assumes "\<forall>ps. PropertySignatureElement ps \<in> set post \<longrightarrow> prop_name ps \<noteq> IdentifierName t"
  shows "domainName @ ''.'' @ t \<notin> fst ` set (stored_entries (getCommandMap_member sourceRoot domainName) post)"
proof
  assume "domainName @ ''.'' @ t \<in> fst ` set (stored_entries (getCommandMap_member sourceRoot domainName) post)"
  from stored_entries_key [OF this] obtain member v where m: "member \<in> set post"
    and e: "getCommandMap_member sourceRoot domainName member = Inr (Some (domainName @ ''.'' @ t, v))"
    by blast
  from getCommandMap_member_key [OF e] obtain ps t' where ps: "member = PropertySignatureElement ps"
    and nm: "prop_name ps = IdentifierName t'" and k: "domainName @ ''.'' @ t = domainName @ ''.'' @ t'"
    by blast
  from k have "t' = t" by simp
  with assms m ps nm show False by simp
qed

lemma getCommandMap_last_entry:
  assumes found: "findFirstInterfaceOrModule sourceRoot (domainName @ ''Commands'') =
      Some (InterfaceDeclaration n (pre @ member # post))"
    and result: "getCommandMap sourceRoot domainName = Inr commandMap"
    and entry: "getCommandMap_member sourceRoot domainName member = Inr (Some (k, v))"
    and later: "k \<notin> fst ` set (stored_entries (getCommandMap_member sourceRoot domainName) post)"
  shows "map_of commandMap k = Some v \<and> length (filter (\<lambda>entry. fst entry = k) commandMap) = 1"
proof -
  let ?body = "getCommandMap_member sourceRoot domainName"
  have loop: "getCommandMap_members sourceRoot domainName (pre @ member # post) [] = Inr commandMap"
    using result getCommandMap_found [OF found] by simp
  have ok: "\<forall>x\<in>set (pre @ member # post). \<exists>r. ?body x = Inr r"
    using loop by (rule getCommandMap_members_ok)
  have eq: "commandMap = set_all [] (stored_entries ?body (pre @ member # post))"
    using getCommandMap_members_set_all [OF ok, of "[]"] loop by simp
  have split: "stored_entries ?body (pre @ member # post) =
      stored_entries ?body pre @ (k, v) # stored_entries ?body post"
    using entry by (rule stored_entries_Cons_Some)
  have val: "map_of commandMap k = Some v"
    unfolding eq split using later by (rule last_write_wins)
  have dist: "distinct (map fst commandMap)"
    unfolding eq by (rule distinct_keys_set_all) simp
  have "k \<in> set (map fst commandMap)"
    unfolding eq split by (simp add: keys_set_all)
  with dist have "length (filter (\<lambda>entry. fst entry = k) commandMap) = 1"
    by (rule one_entry_per_key)
  with val show ?thesis by simp
qed

lemma isWeakInterface_Inr:
  "isWeakInterface sourceRoot D T = Inr w \<Longrightarrow>
     \<exists>dn children n members.
       findFirstInterfaceOrModule sourceRoot D = Some (ModuleDeclaration dn children) \<and>
       findFirstInterfaceOrModule (ModuleDeclaration dn children) T = Some (InterfaceDeclaration n members) \<and>
       w = every optional_or_no_property members"
  by (auto simp: isWeakInterface_def split: option.splits node.splits)

lemma getCommandMap_member_one_reference:
  assumes name: "prop_name p = IdentifierName t"
    and fn: "prop_type p = Some (FunctionTypeNode commandFn)"
    and param: "parameters commandFn = [Parameter (Some (TypeReferenceNode ref))]"
    and tn: "typeName ref = QualifiedName (Identifier D) T"
    and r: "getCommandMap_member sourceRoot domainName (PropertySignatureElement p) = Inr r"
  shows "\<exists>w ret. isWeakInterface sourceRoot D T = Inr w \<and>
     r = Some (domainName @ ''.'' @ t,
       \<lparr>paramsType = (if w then ''void | '' @ (''Crdp.'' @ D @ ''.'' @ T) else ''Crdp.'' @ D @ ''.'' @ T),
        returnType = (if ret = ''void'' then ''void'' else ''Crdp.'' @ ret)\<rparr>)"
proof -
  let ?cn = "domainName @ ''.'' @ t"
  have pt: "getCommandMap_paramsType sourceRoot commandFn ?cn =
      (case isWeakInterface sourceRoot D T of
         Inl e \<Rightarrow> Inl e
       | Inr w \<Rightarrow>
           Inr (if w then ''void | '' @ (''Crdp.'' @ D @ ''.'' @ T) else ''Crdp.'' @ D @ ''.'' @ T))"
    by (simp add: getCommandMap_paramsType_def getParamType_one_reference [OF param]
        getTypeName_two_part [OF tn])
  show ?thesis
  proof (cases "isWeakInterface sourceRoot D T")
    case (Inl e)
    with pt have "getCommandMap_paramsType sourceRoot commandFn ?cn = Inl e" by simp
    with r show ?thesis by (simp add: getCommandMap_member_def name fn Let_def)
  next
    case w: (Inr w)
    with pt have pt_w: "getCommandMap_paramsType sourceRoot commandFn ?cn =
        Inr (if w then ''void | '' @ (''Crdp.'' @ D @ ''.'' @ T) else ''Crdp.'' @ D @ ''.'' @ T)"
      by simp
    show ?thesis
    proof (cases "getPromisedReturnType commandFn ?cn")
      case (Inl e)
      with r pt_w show ?thesis by (simp add: getCommandMap_member_def name fn Let_def)
    next
      case (Inr ret)
      have "getCommandMap_member sourceRoot domainName (PropertySignatureElement p) =
          Inr (Some (?cn,
            \<lparr>paramsType = (if w then ''void | '' @ (''Crdp.'' @ D @ ''.'' @ T) else ''Crdp.'' @ D @ ''.'' @ T),
             returnType = (if ret = ''void'' then ''void'' else ''Crdp.'' @ ret)\<rparr>))"
        using name fn pt_w Inr by (rule getCommandMap_member_entry)
      with r have "r = Some (?cn,
          \<lparr>paramsType = (if w then ''void | '' @ (''Crdp.'' @ D @ ''.'' @ T) else ''Crdp.'' @ D @ ''.'' @ T),
           returnType = (if ret = ''void'' then ''void'' else ''Crdp.'' @ ret)\<rparr>)"
        by simp
      with w show ?thesis
        by (intro exI [where x = w] exI [where x = ret]) simp
    qed
  qed
qed

text \<open>
  Claim C1, amended. Let the interface \<^verbatim>\<open>DomainCommands\<close> be found, let
  \<^verbatim>\<open>getCommandMap\<close> return a command map, and take a command of the interface: a
  property \<open>t\<close> (the last of its name) whose type is a function type with one
  parameter, the type of which is a reference to \<^verbatim>\<open>D.T\<close>. Then the depth-first
  search has found a module (the first interface or module named \<open>D\<close> below the root)
  and, searching from that module, an interface (the first interface or module named
  \<open>T\<close>). The command map has exactly one entry for the command, and its
  \<^verbatim>\<open>paramsType\<close> is \<^verbatim>\<open>void | Crdp.D.T\<close> if and only if every property signature
  among the members of the interface found has the question token (other members do
  not count); otherwise it is \<^verbatim>\<open>Crdp.D.T\<close>. Whenever \<^verbatim>\<open>outputCommandMap\<close> returns
  a text for domains that include this one, the text contains the four lines of the
  entry, with this \<^verbatim>\<open>paramsType\<close>.
\<close>

theorem weak_params_of_found_interface:
  assumes found: "findFirstInterfaceOrModule sourceRoot (domainName @ ''Commands'') =
      Some (InterfaceDeclaration n (pre @ PropertySignatureElement p # post))"
    and result: "getCommandMap sourceRoot domainName = Inr commandMap"
    and name: "prop_name p = IdentifierName t"
    and later: "\<forall>ps. PropertySignatureElement ps \<in> set post \<longrightarrow> prop_name ps \<noteq> IdentifierName t"
    and fn: "prop_type p = Some (FunctionTypeNode commandFn)"
    and param: "parameters commandFn = [Parameter (Some (TypeReferenceNode ref))]"
    and tn: "typeName ref = QualifiedName (Identifier D) T"
  shows "\<exists>dn children n' members types.
     findFirstInterfaceOrModule sourceRoot D = Some (ModuleDeclaration dn children) \<and>
     findFirstInterfaceOrModule (ModuleDeclaration dn children) T =
       Some (InterfaceDeclaration n' members) \<and>
     map_of commandMap (domainName @ ''.'' @ t) = Some types \<and>
     length (filter (\<lambda>entry. fst entry = domainName @ ''.'' @ t) commandMap) = 1 \<and>
     (paramsType types = ''void | Crdp.'' @ D @ ''.'' @ T \<longleftrightarrow>
        (\<forall>m\<in>set members. \<forall>ps. m = PropertySignatureElement ps \<longrightarrow> questionToken ps \<noteq> None)) \<and>
     (paramsType types \<noteq> ''void | Crdp.'' @ D @ ''.'' @ T \<longrightarrow>
        paramsType types = ''Crdp.'' @ D @ ''.'' @ T) \<and>
     (\<forall>domainNames indentLevel out.
        outputCommandMap sourceRoot domainNames indentLevel = Inr out \<and>
        domainName \<in> set domainNames \<longrightarrow>
        (\<exists>before after. out = before @
           (newline (indentLevel + 1) @ [CHR 0x27] @ (domainName @ ''.'' @ t) @ [CHR 0x27] @ '': {'' @
            newline (indentLevel + 2) @ ''paramsType: '' @ paramsType types @ '','' @
            newline (indentLevel + 2) @ ''returnType: '' @ returnType types @
            newline (indentLevel + 1) @ ''};'') @ after))"
proof -
  let ?k = "domainName @ ''.'' @ t"
  have loop: "getCommandMap_members sourceRoot domainName (pre @ PropertySignatureElement p # post) [] =
      Inr commandMap"
    using result getCommandMap_found [OF found] by simp
  have "\<forall>x\<in>set (pre @ PropertySignatureElement p # post).
      \<exists>r. getCommandMap_member sourceRoot domainName x = Inr r"
    using loop by (rule getCommandMap_members_ok)
  then obtain r where r: "getCommandMap_member sourceRoot domainName (PropertySignatureElement p) = Inr r"
    by auto
  from getCommandMap_member_one_reference [OF name fn param tn r]
  obtain w ret where weak: "isWeakInterface sourceRoot D T = Inr w"
    and r_eq: "r = Some (?k,
       \<lparr>paramsType = (if w then ''void | '' @ (''Crdp.'' @ D @ ''.'' @ T) else ''Crdp.'' @ D @ ''.'' @ T),
        returnType = (if ret = ''void'' then ''void'' else ''Crdp.'' @ ret)\<rparr>)"
    by (elim exE conjE)
  define types where "types =
       \<lparr>paramsType = (if w then ''void | '' @ (''Crdp.'' @ D @ ''.'' @ T) else ''Crdp.'' @ D @ ''.'' @ T),
        returnType = (if ret = ''void'' then ''void'' else ''Crdp.'' @ ret)\<rparr>"
  have entry: "getCommandMap_member sourceRoot domainName (PropertySignatureElement p) = Inr (Some (?k, types))"
    using r r_eq by (simp add: types_def)
  from isWeakInterface_Inr [OF weak]
  obtain dn children n' members where
    l1: "findFirstInterfaceOrModule sourceRoot D = Some (ModuleDeclaration dn children)"
    and l2: "findFirstInterfaceOrModule (ModuleDeclaration dn children) T = Some (InterfaceDeclaration n' members)"
    and w: "w = every optional_or_no_property members"
    by (elim exE conjE)
  have later_keys: "?k \<notin> fst ` set (stored_entries (getCommandMap_member sourceRoot domainName) post)"
    using later by (rule getCommandMap_later_keys)
  have map: "map_of commandMap ?k = Some types \<and>
      length (filter (\<lambda>entry. fst entry = ?k) commandMap) = 1"
    using found result entry later_keys by (rule getCommandMap_last_entry)
  have iff: "paramsType types = ''void | Crdp.'' @ D @ ''.'' @ T \<longleftrightarrow>
        (\<forall>m\<in>set members. \<forall>ps. m = PropertySignatureElement ps \<longrightarrow> questionToken ps \<noteq> None)"
    by (simp add: types_def w every_iff optional_or_no_property_iff)
  have other: "paramsType types \<noteq> ''void | Crdp.'' @ D @ ''.'' @ T \<longrightarrow>
        paramsType types = ''Crdp.'' @ D @ ''.'' @ T"
    by (simp add: types_def)
  have mem: "(?k, types) \<in> set commandMap"
    using map by (simp add: map_of_SomeD)
  have rendered: "\<exists>before after. out = before @
           (newline (indentLevel + 1) @ [CHR 0x27] @ ?k @ [CHR 0x27] @ '': {'' @
            newline (indentLevel + 2) @ ''paramsType: '' @ paramsType types @ '','' @
            newline (indentLevel + 2) @ ''returnType: '' @ returnType types @
            newline (indentLevel + 1) @ ''};'') @ after"
    if "outputCommandMap sourceRoot domainNames indentLevel = Inr out \<and> domainName \<in> set domainNames"
    for domainNames indentLevel out
    using outputCommandMap_contains [OF _ _ result mem, of domainNames indentLevel out] that
    by (simp add: command_text_def)
  have rendered_all: "\<forall>domainNames indentLevel out.
        outputCommandMap sourceRoot domainNames indentLevel = Inr out \<and>
        domainName \<in> set domainNames \<longrightarrow>
        (\<exists>before after. out = before @
           (newline (indentLevel + 1) @ [CHR 0x27] @ ?k @ [CHR 0x27] @ '': {'' @
            newline (indentLevel + 2) @ ''paramsType: '' @ paramsType types @ '','' @
            newline (indentLevel + 2) @ ''returnType: '' @ returnType types @
            newline (indentLevel + 1) @ ''};'') @ after)"
    by (intro allI impI) (rule rendered)
  show ?thesis
    by (rule exI [where x = dn], rule exI [where x = children], rule exI [where x = n'],
        rule exI [where x = members], rule exI [where x = types])
      (intro conjI l1 l2 map [THEN conjunct1] map [THEN conjunct2] iff other rendered_all)
qed

theorem weak_params_of_found_interface_witness:
  "\<exists>types.
     map_of
       [(''Network.enable'', \<lparr>paramsType = ''void'', returnType = ''void''\<rparr>),
        (''Network.setCacheDisabled'',
           \<lparr>paramsType = ''Crdp.Network.SetCacheDisabledRequest'', returnType = ''void''\<rparr>),
        (''Network.configure'',
           \<lparr>paramsType = ''void | Crdp.Network.EnableRequest'',
            returnType = ''Crdp.Network.GetCertificateResponse''\<rparr>),
        (''Network.mark'', \<lparr>paramsType = ''void | Crdp.Network.Marker'', returnType = ''void''\<rparr>)]
       ''Network.configure'' = Some types \<and>
     paramsType types = ''void | Crdp.Network.EnableRequest'' \<and>
     (\<exists>out before after.
        outputCommandMap sampleRoot [''Network''] 2 = Inr out \<and>
        out = before @
          (newline (2 + 1) @ [CHR 0x27] @ ''Network.configure'' @ [CHR 0x27] @ '': {'' @
           newline (2 + 2) @ ''paramsType: '' @ ''void | Crdp.Network.EnableRequest'' @ '','' @
           newline (2 + 2) @ ''returnType: '' @ returnType types @
           newline (2 + 1) @ ''};'') @ after)"
proof -
  let ?ref = "TypeReference (QualifiedName (Identifier ''Network'') ''EnableRequest'') None"
  let ?fn = "FunctionType [Parameter (Some (TypeReferenceNode ?ref))]
      (Some (sample_promise (sample_ref ''Network'' ''GetCertificateResponse'')))"
  let ?p = "PropertySignature (IdentifierName ''configure'') None (Some (FunctionTypeNode ?fn))"
  let ?pre = "[sample_command ''enable'' [] VoidKeyword,
      sample_command ''setCacheDisabled''
        [Parameter (Some (sample_ref ''Network'' ''SetCacheDisabledRequest''))] VoidKeyword]"
  let ?post = "[sample_command ''mark'' [Parameter (Some (sample_ref ''Network'' ''Marker''))] VoidKeyword]"
  have found: "findFirstInterfaceOrModule sampleRoot (''Network'' @ ''Commands'') =
      Some (InterfaceDeclaration ''NetworkCommands'' (?pre @ PropertySignatureElement ?p # ?post))"
    using sample_NetworkCommands
    by (simp add: networkCommands_def networkCommandsRest_def sample_command_def sample_ref_def)
  have later: "\<forall>ps. PropertySignatureElement ps \<in> set ?post \<longrightarrow> prop_name ps \<noteq> IdentifierName ''configure''"
    by (auto simp: sample_command_def)
  have name: "prop_name ?p = IdentifierName ''configure''" by simp
  have fn: "prop_type ?p = Some (FunctionTypeNode ?fn)" by simp
  have param: "parameters ?fn = [Parameter (Some (TypeReferenceNode ?ref))]" by simp
  have tn: "typeName ?ref = QualifiedName (Identifier ''Network'') ''EnableRequest''" by simp
  from weak_params_of_found_interface [OF found sample_getCommandMap name later fn param tn]
  obtain dn children n' members types where
    l1: "findFirstInterfaceOrModule sampleRoot ''Network'' = Some (ModuleDeclaration dn children)"
    and l2: "findFirstInterfaceOrModule (ModuleDeclaration dn children) ''EnableRequest'' =
       Some (InterfaceDeclaration n' members)"
    and map: "map_of
       [(''Network.enable'', \<lparr>paramsType = ''void'', returnType = ''void''\<rparr>),
        (''Network.setCacheDisabled'',
           \<lparr>paramsType = ''Crdp.Network.SetCacheDisabledRequest'', returnType = ''void''\<rparr>),
        (''Network.configure'',
           \<lparr>paramsType = ''void | Crdp.Network.EnableRequest'',
            returnType = ''Crdp.Network.GetCertificateResponse''\<rparr>),
        (''Network.mark'', \<lparr>paramsType = ''void | Crdp.Network.Marker'', returnType = ''void''\<rparr>)]
       (''Network'' @ ''.'' @ ''configure'') = Some types"
    and iff: "paramsType types = ''void | Crdp.'' @ ''Network'' @ ''.'' @ ''EnableRequest'' \<longleftrightarrow>
        (\<forall>m\<in>set members. \<forall>ps. m = PropertySignatureElement ps \<longrightarrow> questionToken ps \<noteq> None)"
    and rendered: "\<forall>domainNames indentLevel out.
        outputCommandMap sampleRoot domainNames indentLevel = Inr out \<and>
        ''Network'' \<in> set domainNames \<longrightarrow>
        (\<exists>before after. out = before @
           (newline (indentLevel + 1) @ [CHR 0x27] @ (''Network'' @ ''.'' @ ''configure'') @ [CHR 0x27] @ '': {'' @
            newline (indentLevel + 2) @ ''paramsType: '' @ paramsType types @ '','' @
            newline (indentLevel + 2) @ ''returnType: '' @ returnType types @
            newline (indentLevel + 1) @ ''};'') @ after)"
    by (elim exE conjE)
  from l1 sample_Network have "dn = ''Network''" "children = networkTypes" by simp_all
  with l2 sample_EnableRequest have members: "members =
      [sample_property ''maxTotalBufferSize'' (Some ()), sample_property ''maxResourceBufferSize'' (Some ())]"
    by simp
  have pt: "paramsType types = ''void | Crdp.Network.EnableRequest''"
    using iff unfolding members by (simp add: sample_property_def)
  from sample_outputCommandMap obtain out where out: "outputCommandMap sampleRoot [''Network''] 2 = Inr out"
    by simp
  with rendered obtain before after where "out = before @
           (newline (2 + 1) @ [CHR 0x27] @ (''Network'' @ ''.'' @ ''configure'') @ [CHR 0x27] @ '': {'' @
            newline (2 + 2) @ ''paramsType: '' @ paramsType types @ '','' @
            newline (2 + 2) @ ''returnType: '' @ returnType types @
            newline (2 + 1) @ ''};'') @ after"
    by (metis list.set_intros(1))
  with out pt have "\<exists>out before after.
        outputCommandMap sampleRoot [''Network''] 2 = Inr out \<and>
        out = before @
          (newline (2 + 1) @ [CHR 0x27] @ ''Network.configure'' @ [CHR 0x27] @ '': {'' @
           newline (2 + 2) @ ''paramsType: '' @ ''void | Crdp.Network.EnableRequest'' @ '','' @
           newline (2 + 2) @ ''returnType: '' @ returnType types @
           newline (2 + 1) @ ''};'') @ after"
    by (intro exI [where x = out] exI [where x = before] exI [where x = after]) simp
  with map pt show ?thesis
    by (intro exI [where x = types]) simp
qed

text \<open>
  Claim C1 as it is written speaks of the type \<open>T\<close> declared inside \<open>D\<close>. In the
  schema with the nested module, \<^verbatim>\<open>Network.EnableRequest\<close> is declared in the module
  \<^verbatim>\<open>Network\<close> and its one property is optional, but the search meets
  \<^verbatim>\<open>Network.Detail.EnableRequest\<close> first, which has a required property: the command
  is stored and rendered with \<^verbatim>\<open>Crdp.Network.EnableRequest\<close>, without the \<^verbatim>\<open>void\<close>
  alternative.
\<close>

theorem weak_params_shadowed_counterexample:
  "findFirstInterfaceOrModule shadowRoot ''Network'' = Some (ModuleDeclaration ''Network'' shadowTypes) \<and>
   declared_interface shadowTypes ''EnableRequest'' =
     Some [sample_property ''maxTotalBufferSize'' (Some ())] \<and>
   every optional_or_no_property [sample_property ''maxTotalBufferSize'' (Some ())] \<and>
   getCommandMap shadowRoot ''Network'' =
     Inr [(''Network.configure'', \<lparr>paramsType = ''Crdp.Network.EnableRequest'', returnType = ''void''\<rparr>),
          (''Network.mark'', \<lparr>paramsType = ''Crdp.Network.Marker'', returnType = ''void''\<rparr>)] \<and>
   ''Crdp.Network.EnableRequest'' \<noteq> ''void | Crdp.Network.EnableRequest'' \<and>
   outputCommandMap shadowRoot [''Network''] 2 =
     Inr (''\<newline>    export interface CrdpCommands {'' @
          ''\<newline>      '' @ [CHR 0x27] @ ''Network.configure'' @ [CHR 0x27] @ '': {'' @
          ''\<newline>        paramsType: Crdp.Network.EnableRequest,'' @
          ''\<newline>        returnType: void'' @
          ''\<newline>      };'' @
          ''\<newline>      '' @ [CHR 0x27] @ ''Network.mark'' @ [CHR 0x27] @ '': {'' @
          ''\<newline>        paramsType: Crdp.Network.Marker,'' @
          ''\<newline>        returnType: void'' @
          ''\<newline>      };'' @
          ''\<newline>    }'')"
proof -
  have "declared_interface shadowTypes ''EnableRequest'' =
     Some [sample_property ''maxTotalBufferSize'' (Some ())]"
    by (simp add: shadowTypes_def)
  moreover have "every optional_or_no_property [sample_property ''maxTotalBufferSize'' (Some ())]"
    by (simp add: sample_property_def)
  moreover have "''Crdp.Network.EnableRequest'' \<noteq> ''void | Crdp.Network.EnableRequest''"
    by simp
  ultimately show ?thesis
    using shadow_Network shadow_getCommandMap shadow_outputCommandMap by (intro conjI)
qed



text \<open>
  Claim C10, amended. Let the depth-first search find a module for \<open>D\<close> and, from
  that module, an interface for \<open>T\<close>, and let the interface found have no property
  signature among its members (no member at all, or only other members). Then
  \<^verbatim>\<open>isWeakInterface\<close> returns \<^verbatim>\<open>true\<close>. So for every command (the last property of
  its name) whose one parameter has the type \<^verbatim>\<open>D.T\<close>, a command map that
  \<^verbatim>\<open>getCommandMap\<close> returns has exactly one entry for the command, with the
  \<^verbatim>\<open>paramsType\<close> \<^verbatim>\<open>void | Crdp.D.T\<close>, and a text that \<^verbatim>\<open>outputCommandMap\<close> returns
  for domains that include this one contains the four lines of the entry, with this
  \<^verbatim>\<open>paramsType\<close>.
\<close>

theorem empty_found_interface_is_weak:
  assumes l1: "findFirstInterfaceOrModule sourceRoot D = Some (ModuleDeclaration dn children)"
    and l2: "findFirstInterfaceOrModule (ModuleDeclaration dn children) T =
      Some (InterfaceDeclaration n' members)"
    and none: "\<forall>member\<in>set members. \<forall>ps. member \<noteq> PropertySignatureElement ps"
  shows "isWeakInterface sourceRoot D T = Inr True \<and>
    (\<forall>domainName n pre p post commandMap t commandFn ref.
       findFirstInterfaceOrModule sourceRoot (domainName @ ''Commands'') =
         Some (InterfaceDeclaration n (pre @ PropertySignatureElement p # post)) \<and>
       getCommandMap sourceRoot domainName = Inr commandMap \<and>
       prop_name p = IdentifierName t \<and>
       (\<forall>ps. PropertySignatureElement ps \<in> set post \<longrightarrow> prop_name ps \<noteq> IdentifierName t) \<and>
       prop_type p = Some (FunctionTypeNode commandFn) \<and>
       parameters commandFn = [Parameter (Some (TypeReferenceNode ref))] \<and>
       typeName ref = QualifiedName (Identifier D) T \<longrightarrow>
       (\<exists>types.
          map_of commandMap (domainName @ ''.'' @ t) = Some types \<and>
          length (filter (\<lambda>entry. fst entry = domainName @ ''.'' @ t) commandMap) = 1 \<and>
          paramsType types = ''void | Crdp.'' @ D @ ''.'' @ T \<and>
          (\<forall>domainNames indentLevel out.
             outputCommandMap sourceRoot domainNames indentLevel = Inr out \<and>
             domainName \<in> set domainNames \<longrightarrow>
             (\<exists>before after. out = before @
                (newline (indentLevel + 1) @ [CHR 0x27] @ (domainName @ ''.'' @ t) @ [CHR 0x27] @ '': {'' @
                 newline (indentLevel + 2) @ ''paramsType: '' @ (''void | Crdp.'' @ D @ ''.'' @ T) @ '','' @
                 newline (indentLevel + 2) @ ''returnType: '' @ returnType types @
                 newline (indentLevel + 1) @ ''};'') @ after))))"
proof (rule conjI)
  have every: "every optional_or_no_property members"
    using none by (simp add: every_iff optional_or_no_property_iff)
  show weak: "isWeakInterface sourceRoot D T = Inr True"
    using isWeakInterface_found [OF l1 l2] every by simp
  show "\<forall>domainName n pre p post commandMap t commandFn ref.
       findFirstInterfaceOrModule sourceRoot (domainName @ ''Commands'') =
         Some (InterfaceDeclaration n (pre @ PropertySignatureElement p # post)) \<and>
       getCommandMap sourceRoot domainName = Inr commandMap \<and>
       prop_name p = IdentifierName t \<and>
       (\<forall>ps. PropertySignatureElement ps \<in> set post \<longrightarrow> prop_name ps \<noteq> IdentifierName t) \<and>
       prop_type p = Some (FunctionTypeNode commandFn) \<and>
       parameters commandFn = [Parameter (Some (TypeReferenceNode ref))] \<and>
       typeName ref = QualifiedName (Identifier D) T \<longrightarrow>
       (\<exists>types.
          map_of commandMap (domainName @ ''.'' @ t) = Some types \<and>
          length (filter (\<lambda>entry. fst entry = domainName @ ''.'' @ t) commandMap) = 1 \<and>
          paramsType types = ''void | Crdp.'' @ D @ ''.'' @ T \<and>
          (\<forall>domainNames indentLevel out.
             outputCommandMap sourceRoot domainNames indentLevel = Inr out \<and>
             domainName \<in> set domainNames \<longrightarrow>
             (\<exists>before after. out = before @
                (newline (indentLevel + 1) @ [CHR 0x27] @ (domainName @ ''.'' @ t) @ [CHR 0x27] @ '': {'' @
                 newline (indentLevel + 2) @ ''paramsType: '' @ (''void | Crdp.'' @ D @ ''.'' @ T) @ '','' @
                 newline (indentLevel + 2) @ ''returnType: '' @ returnType types @
                 newline (indentLevel + 1) @ ''};'') @ after)))"
  proof (intro allI impI, elim conjE)
    fix domainName n pre p post commandMap t commandFn ref
    let ?k = "domainName @ ''.'' @ t"
    assume found: "findFirstInterfaceOrModule sourceRoot (domainName @ ''Commands'') =
         Some (InterfaceDeclaration n (pre @ PropertySignatureElement p # post))"
      and result: "getCommandMap sourceRoot domainName = Inr commandMap"
      and name: "prop_name p = IdentifierName t"
      and later: "\<forall>ps. PropertySignatureElement ps \<in> set post \<longrightarrow> prop_name ps \<noteq> IdentifierName t"
      and fn: "prop_type p = Some (FunctionTypeNode commandFn)"
      and param: "parameters commandFn = [Parameter (Some (TypeReferenceNode ref))]"
      and tn: "typeName ref = QualifiedName (Identifier D) T"
    have loop: "getCommandMap_members sourceRoot domainName (pre @ PropertySignatureElement p # post) [] =
        Inr commandMap"
      using result getCommandMap_found [OF found] by simp
    have "\<forall>x\<in>set (pre @ PropertySignatureElement p # post).
        \<exists>r. getCommandMap_member sourceRoot domainName x = Inr r"
      using loop by (rule getCommandMap_members_ok)
    then obtain r where r: "getCommandMap_member sourceRoot domainName (PropertySignatureElement p) = Inr r"
      by auto
    from getCommandMap_member_one_reference [OF name fn param tn r]
    obtain w ret where w: "isWeakInterface sourceRoot D T = Inr w"
      and r_eq: "r = Some (?k,
         \<lparr>paramsType = (if w then ''void | '' @ (''Crdp.'' @ D @ ''.'' @ T) else ''Crdp.'' @ D @ ''.'' @ T),
          returnType = (if ret = ''void'' then ''void'' else ''Crdp.'' @ ret)\<rparr>)"
      by (elim exE conjE)
    from w weak have "w = True" by simp
    define types where "types =
         \<lparr>paramsType = ''void | '' @ (''Crdp.'' @ D @ ''.'' @ T),
          returnType = (if ret = ''void'' then ''void'' else ''Crdp.'' @ ret)\<rparr>"
    have entry: "getCommandMap_member sourceRoot domainName (PropertySignatureElement p) = Inr (Some (?k, types))"
      using r r_eq \<open>w = True\<close> by (simp add: types_def)
    have later_keys: "?k \<notin> fst ` set (stored_entries (getCommandMap_member sourceRoot domainName) post)"
      using later by (rule getCommandMap_later_keys)
    have map: "map_of commandMap ?k = Some types \<and>
        length (filter (\<lambda>entry. fst entry = ?k) commandMap) = 1"
      using found result entry later_keys by (rule getCommandMap_last_entry)
    have pt: "paramsType types = ''void | Crdp.'' @ D @ ''.'' @ T"
      by (simp add: types_def)
    have mem: "(?k, types) \<in> set commandMap"
      using map by (simp add: map_of_SomeD)
    have rendered: "\<exists>before after. out = before @
             (newline (indentLevel + 1) @ [CHR 0x27] @ ?k @ [CHR 0x27] @ '': {'' @
              newline (indentLevel + 2) @ ''paramsType: '' @ (''void | Crdp.'' @ D @ ''.'' @ T) @ '','' @
              newline (indentLevel + 2) @ ''returnType: '' @ returnType types @
              newline (indentLevel + 1) @ ''};'') @ after"
      if "outputCommandMap sourceRoot domainNames indentLevel = Inr out \<and> domainName \<in> set domainNames"
      for domainNames indentLevel out
      using outputCommandMap_contains [OF _ _ result mem, of domainNames indentLevel out] that
      by (simp add: command_text_def types_def)
    have rendered_all: "\<forall>domainNames indentLevel out.
             outputCommandMap sourceRoot domainNames indentLevel = Inr out \<and>
             domainName \<in> set domainNames \<longrightarrow>
             (\<exists>before after. out = before @
                (newline (indentLevel + 1) @ [CHR 0x27] @ ?k @ [CHR 0x27] @ '': {'' @
                 newline (indentLevel + 2) @ ''paramsType: '' @ (''void | Crdp.'' @ D @ ''.'' @ T) @ '','' @
                 newline (indentLevel + 2) @ ''returnType: '' @ returnType types @
                 newline (indentLevel + 1) @ ''};'') @ after)"
      by (intro allI impI) (rule rendered)
    show "\<exists>types.
          map_of commandMap ?k = Some types \<and>
          length (filter (\<lambda>entry. fst entry = ?k) commandMap) = 1 \<and>
          paramsType types = ''void | Crdp.'' @ D @ ''.'' @ T \<and>
          (\<forall>domainNames indentLevel out.
             outputCommandMap sourceRoot domainNames indentLevel = Inr out \<and>
             domainName \<in> set domainNames \<longrightarrow>
             (\<exists>before after. out = before @
                (newline (indentLevel + 1) @ [CHR 0x27] @ ?k @ [CHR 0x27] @ '': {'' @
                 newline (indentLevel + 2) @ ''paramsType: '' @ (''void | Crdp.'' @ D @ ''.'' @ T) @ '','' @
                 newline (indentLevel + 2) @ ''returnType: '' @ returnType types @
                 newline (indentLevel + 1) @ ''};'') @ after))"
      by (rule exI [where x = types])
        (intro conjI map [THEN conjunct1] map [THEN conjunct2] pt rendered_all)
  qed
qed

theorem empty_found_interface_is_weak_witness:
  "isWeakInterface sampleRoot ''Network'' ''Marker'' = Inr True \<and>
   (\<exists>types.
      map_of
        [(''Network.enable'', \<lparr>paramsType = ''void'', returnType = ''void''\<rparr>),
         (''Network.setCacheDisabled'',
            \<lparr>paramsType = ''Crdp.Network.SetCacheDisabledRequest'', returnType = ''void''\<rparr>),
         (''Network.configure'',
            \<lparr>paramsType = ''void | Crdp.Network.EnableRequest'',
             returnType = ''Crdp.Network.GetCertificateResponse''\<rparr>),
         (''Network.mark'', \<lparr>paramsType = ''void | Crdp.Network.Marker'', returnType = ''void''\<rparr>)]
        ''Network.mark'' = Some types \<and>
      paramsType types = ''void | Crdp.Network.Marker'' \<and>
      (\<exists>out before after.
         outputCommandMap sampleRoot [''Network''] 2 = Inr out \<and>
         out = before @
           (newline (2 + 1) @ [CHR 0x27] @ ''Network.mark'' @ [CHR 0x27] @ '': {'' @
            newline (2 + 2) @ ''paramsType: '' @ ''void | Crdp.Network.Marker'' @ '','' @
            newline (2 + 2) @ ''returnType: '' @ returnType types @
            newline (2 + 1) @ ''};'') @ after))"
proof -
  let ?ref = "TypeReference (QualifiedName (Identifier ''Network'') ''Marker'') None"
  let ?fn = "FunctionType [Parameter (Some (TypeReferenceNode ?ref))] (Some (sample_promise VoidKeyword))"
  let ?p = "PropertySignature (IdentifierName ''mark'') None (Some (FunctionTypeNode ?fn))"
  let ?pre = "[sample_command ''enable'' [] VoidKeyword,
      sample_command ''setCacheDisabled''
        [Parameter (Some (sample_ref ''Network'' ''SetCacheDisabledRequest''))] VoidKeyword,
      sample_command ''configure'' [Parameter (Some (sample_ref ''Network'' ''EnableRequest''))]
        (sample_ref ''Network'' ''GetCertificateResponse'')]"
  let ?m = "[(''Network.enable'', \<lparr>paramsType = ''void'', returnType = ''void''\<rparr>),
         (''Network.setCacheDisabled'',
            \<lparr>paramsType = ''Crdp.Network.SetCacheDisabledRequest'', returnType = ''void''\<rparr>),
         (''Network.configure'',
            \<lparr>paramsType = ''void | Crdp.Network.EnableRequest'',
             returnType = ''Crdp.Network.GetCertificateResponse''\<rparr>),
         (''Network.mark'', \<lparr>paramsType = ''void | Crdp.Network.Marker'', returnType = ''void''\<rparr>)]"
  have none: "\<forall>member\<in>set [OtherTypeElement]. \<forall>ps. member \<noteq> PropertySignatureElement ps"
    by simp
  note inst = empty_found_interface_is_weak [OF sample_Network sample_Marker none]
  have found: "findFirstInterfaceOrModule sampleRoot (''Network'' @ ''Commands'') =
      Some (InterfaceDeclaration ''NetworkCommands'' (?pre @ PropertySignatureElement ?p # []))"
    using sample_NetworkCommands
    by (simp add: networkCommands_def networkCommandsRest_def sample_command_def sample_ref_def)
  have hyps: "findFirstInterfaceOrModule sampleRoot (''Network'' @ ''Commands'') =
         Some (InterfaceDeclaration ''NetworkCommands'' (?pre @ PropertySignatureElement ?p # [])) \<and>
       getCommandMap sampleRoot ''Network'' = Inr ?m \<and>
       prop_name ?p = IdentifierName ''mark'' \<and>
       (\<forall>ps. PropertySignatureElement ps \<in> set [] \<longrightarrow> prop_name ps \<noteq> IdentifierName ''mark'') \<and>
       prop_type ?p = Some (FunctionTypeNode ?fn) \<and>
       parameters ?fn = [Parameter (Some (TypeReferenceNode ?ref))] \<and>
       typeName ?ref = QualifiedName (Identifier ''Network'') ''Marker''"
    using found sample_getCommandMap by simp
  from inst [THEN conjunct2, rule_format, OF hyps]
  obtain types where map: "map_of ?m (''Network'' @ ''.'' @ ''mark'') = Some types"
    and pt: "paramsType types = ''void | Crdp.'' @ ''Network'' @ ''.'' @ ''Marker''"
    and rendered: "\<forall>domainNames indentLevel out.
             outputCommandMap sampleRoot domainNames indentLevel = Inr out \<and>
             ''Network'' \<in> set domainNames \<longrightarrow>
             (\<exists>before after. out = before @
                (newline (indentLevel + 1) @ [CHR 0x27] @ (''Network'' @ ''.'' @ ''mark'') @ [CHR 0x27] @ '': {'' @
                 newline (indentLevel + 2) @ ''paramsType: '' @
                   (''void | Crdp.'' @ ''Network'' @ ''.'' @ ''Marker'') @ '','' @
                 newline (indentLevel + 2) @ ''returnType: '' @ returnType types @
                 newline (indentLevel + 1) @ ''};'') @ after)"
    by (elim exE conjE)
  from sample_outputCommandMap obtain out where out: "outputCommandMap sampleRoot [''Network''] 2 = Inr out"
    by simp
  with rendered obtain before after where "out = before @
                (newline (2 + 1) @ [CHR 0x27] @ (''Network'' @ ''.'' @ ''mark'') @ [CHR 0x27] @ '': {'' @
                 newline (2 + 2) @ ''paramsType: '' @
                   (''void | Crdp.'' @ ''Network'' @ ''.'' @ ''Marker'') @ '','' @
                 newline (2 + 2) @ ''returnType: '' @ returnType types @
                 newline (2 + 1) @ ''};'') @ after"
    by (metis list.set_intros(1))
  with out have "\<exists>out before after.
         outputCommandMap sampleRoot [''Network''] 2 = Inr out \<and>
         out = before @
           (newline (2 + 1) @ [CHR 0x27] @ ''Network.mark'' @ [CHR 0x27] @ '': {'' @
            newline (2 + 2) @ ''paramsType: '' @ ''void | Crdp.Network.Marker'' @ '','' @
            newline (2 + 2) @ ''returnType: '' @ returnType types @
            newline (2 + 1) @ ''};'') @ after"
    by (intro exI [where x = out] exI [where x = before] exI [where x = after]) simp
  with map pt inst [THEN conjunct1] show ?thesis
    by (intro conjI exI [where x = types]) simp_all
qed

text \<open>
  Claim C10 as it is written speaks of any interface without property signatures. In
  the schema with the nested module, \<^verbatim>\<open>Network.Marker\<close> is declared in the module
  \<^verbatim>\<open>Network\<close> with no member, but the search meets \<^verbatim>\<open>Network.Detail.Marker\<close>
  first, which has a required property: the interface is not classified as weak and the
  command is stored with \<^verbatim>\<open>Crdp.Network.Marker\<close>, without the \<^verbatim>\<open>void\<close> alternative.
\<close>

theorem empty_interface_shadowed_counterexample:
  "findFirstInterfaceOrModule shadowRoot ''Network'' = Some (ModuleDeclaration ''Network'' shadowTypes) \<and>
   declared_interface shadowTypes ''Marker'' = Some [] \<and>
   isWeakInterface shadowRoot ''Network'' ''Marker'' = Inr False \<and>
   getCommandMap shadowRoot ''Network'' =
     Inr [(''Network.configure'', \<lparr>paramsType = ''Crdp.Network.EnableRequest'', returnType = ''void''\<rparr>),
          (''Network.mark'', \<lparr>paramsType = ''Crdp.Network.Marker'', returnType = ''void''\<rparr>)] \<and>
   ''Crdp.Network.Marker'' \<noteq> ''void | Crdp.Network.Marker''"
proof -
  have "declared_interface shadowTypes ''Marker'' = Some []"
    by (simp add: shadowTypes_def)
  moreover have "isWeakInterface shadowRoot ''Network'' ''Marker'' = Inr False"
    by code_simp
  moreover have "''Crdp.Network.Marker'' \<noteq> ''void | Crdp.Network.Marker''"
    by simp
  ultimately show ?thesis
    using shadow_Network shadow_getCommandMap by (intro conjI)
qed

text \<open>
  The search for the interface starts at the module itself. A type named like its
  domain is therefore never found: the search returns the module, and
  \<^verbatim>\<open>isWeakInterface\<close> fails with its error.
\<close>

lemma walker_module_name:
  "walker targetName nd = Some (ModuleDeclaration dn children) \<Longrightarrow> dn = targetName"
  "walker_children targetName nodes = Some (ModuleDeclaration dn children) \<Longrightarrow> dn = targetName"
  by (induction targetName nd and targetName nodes rule: walker_walker_children.induct)
    (auto split: if_splits option.splits)

lemma isWeakInterface_type_named_like_domain:
  "findFirstInterfaceOrModule sourceRoot D = Some (ModuleDeclaration dn children) \<Longrightarrow>
     isWeakInterface sourceRoot D D =
       Inl (Error (''interface '' @ D @ '' not found within '' @ D @ '' domain''))"
  using walker_module_name(1) [of D sourceRoot dn children]
  by (simp add: isWeakInterface_def findFirstInterfaceOrModule_def)

section \<open>The rendered text\<close>

lemma repeat_two_spaces: "repeat ''  '' n = replicate (2 * n) (CHR '' '')"
  by (induction n) simp_all

lemma outputCommandMap_entries_concat:
  "outputCommandMap_entries entries indentLevel outputStr =
     outputStr @ concat (map (\<lambda>(commandName, types).
        newline (indentLevel + 1) @ [CHR 0x27] @ commandName @ [CHR 0x27] @ '': {'' @
        newline (indentLevel + 2) @ ''paramsType: '' @ paramsType types @ '','' @
        newline (indentLevel + 2) @ ''returnType: '' @ returnType types @
        newline (indentLevel + 1) @ ''};'') entries)"
  by (induction entries arbitrary: outputStr) auto

lemma crdpStr_iff:
  "crdpStr sourceRoot = Inr out \<longleftrightarrow>
     (\<exists>domainNames eventMaps commandMaps.
        getCrdpDomainNames sourceRoot = Inr domainNames \<and>
        list_all2 (\<lambda>d m. getEventMap sourceRoot d = Inr m) domainNames eventMaps \<and>
        list_all2 (\<lambda>d m. getCommandMap sourceRoot d = Inr m) domainNames commandMaps \<and>
        out = headerBlock @ ''\<newline>declare global {\<newline>  module LH {'' @
          newline 2 @ ''export interface CrdpEvents {'' @
          concat (map (event_text 2) (concat eventMaps)) @ newline 2 @ ''}'' @
          ''\<newline>'' @
          newline 2 @ ''export interface CrdpCommands {'' @
          concat (map (command_text 2) (concat commandMaps)) @ newline 2 @ ''}'' @
          ''\<newline>  }\<newline>}\<newline>\<newline>// empty export to keep file a module\<newline>export {}\<newline>'')"
  (is "?lhs \<longleftrightarrow> ?rhs")
proof
  assume ?lhs
  then obtain domainNames events commands where
    names: "getCrdpDomainNames sourceRoot = Inr domainNames"
    and ev: "outputEventMap sourceRoot domainNames 2 = Inr events"
    and cm: "outputCommandMap sourceRoot domainNames 2 = Inr commands"
    and out: "out = headerBlock @ ''\<newline>declare global {\<newline>  module LH {'' @ events @ ''\<newline>'' @ commands @
          ''\<newline>  }\<newline>}\<newline>\<newline>// empty export to keep file a module\<newline>export {}\<newline>''"
    by (auto simp: crdpStr_def split: sum.splits)
  from ev obtain eventMaps where
    em: "list_all2 (\<lambda>d m. getEventMap sourceRoot d = Inr m) domainNames eventMaps"
    and events: "events = newline 2 @ ''export interface CrdpEvents {'' @
            concat (map (event_text 2) (concat eventMaps)) @ newline 2 @ ''}''"
    unfolding outputEventMap_iff by (elim exE conjE)
  from cm obtain commandMaps where
    cmm: "list_all2 (\<lambda>d m. getCommandMap sourceRoot d = Inr m) domainNames commandMaps"
    and commands: "commands = newline 2 @ ''export interface CrdpCommands {'' @
            concat (map (command_text 2) (concat commandMaps)) @ newline 2 @ ''}''"
    unfolding outputCommandMap_iff by (elim exE conjE)
  show ?rhs
    by (rule exI [where x = domainNames], rule exI [where x = eventMaps],
        rule exI [where x = commandMaps]) (simp add: names em cmm out events commands)
next
  assume ?rhs
  then obtain domainNames eventMaps commandMaps where
    names: "getCrdpDomainNames sourceRoot = Inr domainNames"
    and em: "list_all2 (\<lambda>d m. getEventMap sourceRoot d = Inr m) domainNames eventMaps"
    and cmm: "list_all2 (\<lambda>d m. getCommandMap sourceRoot d = Inr m) domainNames commandMaps"
    and out: "out = headerBlock @ ''\<newline>declare global {\<newline>  module LH {'' @
          newline 2 @ ''export interface CrdpEvents {'' @
          concat (map (event_text 2) (concat eventMaps)) @ newline 2 @ ''}'' @
          ''\<newline>'' @
          newline 2 @ ''export interface CrdpCommands {'' @
          concat (map (command_text 2) (concat commandMaps)) @ newline 2 @ ''}'' @
          ''\<newline>  }\<newline>}\<newline>\<newline>// empty export to keep file a module\<newline>export {}\<newline>''"
    by (elim exE conjE)
  have ev: "outputEventMap sourceRoot domainNames 2 = Inr (newline 2 @ ''export interface CrdpEvents {'' @
            concat (map (event_text 2) (concat eventMaps)) @ newline 2 @ ''}'')"
    unfolding outputEventMap_iff using em by (intro exI [where x = eventMaps]) simp
  have cm: "outputCommandMap sourceRoot domainNames 2 = Inr (newline 2 @ ''export interface CrdpCommands {'' @
            concat (map (command_text 2) (concat commandMaps)) @ newline 2 @ ''}'')"
    unfolding outputCommandMap_iff using cmm by (intro exI [where x = commandMaps]) simp
  show ?lhs
    by (simp add: crdpStr_def names ev cm out)
qed

lemma crdpStr_cong:
  assumes names: "getCrdpDomainNames sourceRoot = getCrdpDomainNames sourceRoot'"
    and maps: "\<forall>domainNames. getCrdpDomainNames sourceRoot = Inr domainNames \<longrightarrow>
      (\<forall>d\<in>set domainNames. getEventMap sourceRoot d = getEventMap sourceRoot' d \<and>
         getCommandMap sourceRoot d = getCommandMap sourceRoot' d)"
  shows "crdpStr sourceRoot = crdpStr sourceRoot'"
proof (cases "getCrdpDomainNames sourceRoot")
  case (Inl e)
  then show ?thesis using names by (simp add: crdpStr_def)
next
  case (Inr ds)
  with maps have ev: "\<forall>d\<in>set ds. getEventMap sourceRoot d = getEventMap sourceRoot' d"
    and cm: "\<forall>d\<in>set ds. getCommandMap sourceRoot d = getCommandMap sourceRoot' d"
    by simp_all
  have "outputEventMap sourceRoot ds 2 = outputEventMap sourceRoot' ds 2"
    by (simp add: outputEventMap_def outputEventMap_domains_cong [OF ev])
  moreover have "outputCommandMap sourceRoot ds 2 = outputCommandMap sourceRoot' ds 2"
    by (simp add: outputCommandMap_def outputCommandMap_domains_cong [OF cm])
  ultimately show ?thesis using Inr names by (auto simp: crdpStr_def split: sum.splits)
qed

lemma newline_replicate: "newline indentLevel = CHR 0x0A # replicate (2 * indentLevel) (CHR '' '')"
  by (simp add: newline_def repeat_two_spaces)

text \<open>
  Claim C6. The text that the script writes is determined by the parsed tree, and the
  theorem says how. The script returns a text exactly when the domain names and, for
  every domain in their order, the event map and the command map are extracted; the
  text is then the header, the opening lines, the block of the events, an empty line,
  the block of the commands and the closing lines, where each block lists the entries of
  the maps in the order of the domains and, within a map, in the order of the map, each
  entry on lines of its own. A line starts with a line feed and two spaces per level of
  indentation. So two trees with the same domain names and the same maps for these
  domains give the same result, text or failure; in particular equal trees do.
\<close>

theorem extraction_deterministic:
  "(sourceRoot = sourceRoot' \<longrightarrow> crdpStr sourceRoot = crdpStr sourceRoot') \<and>
   (getCrdpDomainNames sourceRoot = getCrdpDomainNames sourceRoot' \<and>
    (\<forall>domainNames. getCrdpDomainNames sourceRoot = Inr domainNames \<longrightarrow>
       (\<forall>d\<in>set domainNames. getEventMap sourceRoot d = getEventMap sourceRoot' d \<and>
          getCommandMap sourceRoot d = getCommandMap sourceRoot' d)) \<longrightarrow>
    crdpStr sourceRoot = crdpStr sourceRoot') \<and>
   (crdpStr sourceRoot = Inr out \<longleftrightarrow>
     (\<exists>domainNames eventMaps commandMaps.
        getCrdpDomainNames sourceRoot = Inr domainNames \<and>
        list_all2 (\<lambda>d m. getEventMap sourceRoot d = Inr m) domainNames eventMaps \<and>
        list_all2 (\<lambda>d m. getCommandMap sourceRoot d = Inr m) domainNames commandMaps \<and>
        out = headerBlock @ ''\<newline>declare global {\<newline>  module LH {'' @
          newline 2 @ ''export interface CrdpEvents {'' @
          concat (map (event_text 2) (concat eventMaps)) @ newline 2 @ ''}'' @
          ''\<newline>'' @
          newline 2 @ ''export interface CrdpCommands {'' @
          concat (map (command_text 2) (concat commandMaps)) @ newline 2 @ ''}'' @
          ''\<newline>  }\<newline>}\<newline>\<newline>// empty export to keep file a module\<newline>export {}\<newline>'')) \<and>
   newline indentLevel = CHR 0x0A # replicate (2 * indentLevel) (CHR '' '') \<and>
   event_text indentLevel (eventName, eventType) =
     newline (indentLevel + 1) @ [CHR 0x27] @ eventName @ [CHR 0x27] @ '': '' @ eventType @ '';'' \<and>
   command_text indentLevel (commandName, types) =
     newline (indentLevel + 1) @ [CHR 0x27] @ commandName @ [CHR 0x27] @ '': {'' @
     newline (indentLevel + 2) @ ''paramsType: '' @ paramsType types @ '','' @
     newline (indentLevel + 2) @ ''returnType: '' @ returnType types @
     newline (indentLevel + 1) @ ''};''"
proof (intro conjI)
  show "sourceRoot = sourceRoot' \<longrightarrow> crdpStr sourceRoot = crdpStr sourceRoot'" by simp
  show "getCrdpDomainNames sourceRoot = getCrdpDomainNames sourceRoot' \<and>
    (\<forall>domainNames. getCrdpDomainNames sourceRoot = Inr domainNames \<longrightarrow>
       (\<forall>d\<in>set domainNames. getEventMap sourceRoot d = getEventMap sourceRoot' d \<and>
          getCommandMap sourceRoot d = getCommandMap sourceRoot' d)) \<longrightarrow>
    crdpStr sourceRoot = crdpStr sourceRoot'"
    using crdpStr_cong by blast
  show "crdpStr sourceRoot = Inr out \<longleftrightarrow>
     (\<exists>domainNames eventMaps commandMaps.
        getCrdpDomainNames sourceRoot = Inr domainNames \<and>
        list_all2 (\<lambda>d m. getEventMap sourceRoot d = Inr m) domainNames eventMaps \<and>
        list_all2 (\<lambda>d m. getCommandMap sourceRoot d = Inr m) domainNames commandMaps \<and>
        out = headerBlock @ ''\<newline>declare global {\<newline>  module LH {'' @
          newline 2 @ ''export interface CrdpEvents {'' @
          concat (map (event_text 2) (concat eventMaps)) @ newline 2 @ ''}'' @
          ''\<newline>'' @
          newline 2 @ ''export interface CrdpCommands {'' @
          concat (map (command_text 2) (concat commandMaps)) @ newline 2 @ ''}'' @
          ''\<newline>  }\<newline>}\<newline>\<newline>// empty export to keep file a module\<newline>export {}\<newline>'')"
    by (rule crdpStr_iff)
  show "newline indentLevel = CHR 0x0A # replicate (2 * indentLevel) (CHR '' '')"
    by (rule newline_replicate)
  show "event_text indentLevel (eventName, eventType) =
     newline (indentLevel + 1) @ [CHR 0x27] @ eventName @ [CHR 0x27] @ '': '' @ eventType @ '';''"
    by (simp add: event_text_def)
  show "command_text indentLevel (commandName, types) =
     newline (indentLevel + 1) @ [CHR 0x27] @ commandName @ [CHR 0x27] @ '': {'' @
     newline (indentLevel + 2) @ ''paramsType: '' @ paramsType types @ '','' @
     newline (indentLevel + 2) @ ''returnType: '' @ returnType types @
     newline (indentLevel + 1) @ ''};''"
    by (simp add: command_text_def)
qed

theorem extraction_deterministic_witness:
  "crdpStr sampleRoot =
     Inr (headerBlock @
       ''\<newline>declare global {\<newline>  module LH {'' @
       ''\<newline>    export interface CrdpEvents {'' @
       ''\<newline>      '' @ [CHR 0x27] @ ''Network.requestWillBeSent'' @ [CHR 0x27] @ '': void;'' @
       ''\<newline>      '' @ [CHR 0x27] @ ''Network.loadingFinished'' @ [CHR 0x27] @ '': Crdp.Network.LoadingFinishedEvent;'' @
       ''\<newline>    }'' @
       ''\<newline>'' @
       ''\<newline>    export interface CrdpCommands {'' @
       ''\<newline>      '' @ [CHR 0x27] @ ''Network.enable'' @ [CHR 0x27] @ '': {'' @
       ''\<newline>        paramsType: void,'' @
       ''\<newline>        returnType: void'' @
       ''\<newline>      };'' @
       ''\<newline>      '' @ [CHR 0x27] @ ''Network.setCacheDisabled'' @ [CHR 0x27] @ '': {'' @
       ''\<newline>        paramsType: Crdp.Network.SetCacheDisabledRequest,'' @
       ''\<newline>        returnType: void'' @
       ''\<newline>      };'' @
       ''\<newline>      '' @ [CHR 0x27] @ ''Network.configure'' @ [CHR 0x27] @ '': {'' @
       ''\<newline>        paramsType: void | Crdp.Network.EnableRequest,'' @
       ''\<newline>        returnType: Crdp.Network.GetCertificateResponse'' @
       ''\<newline>      };'' @
       ''\<newline>      '' @ [CHR 0x27] @ ''Network.mark'' @ [CHR 0x27] @ '': {'' @
       ''\<newline>        paramsType: void | Crdp.Network.Marker,'' @
       ''\<newline>        returnType: void'' @
       ''\<newline>      };'' @
       ''\<newline>    }'' @
       ''\<newline>  }\<newline>}\<newline>\<newline>// empty export to keep file a module\<newline>export {}\<newline>'') \<and>
   paddedRoot \<noteq> sampleRoot \<and>
   crdpStr paddedRoot = crdpStr sampleRoot"
proof -
  let ?em = "[(''Network.requestWillBeSent'', ''void''),
      (''Network.loadingFinished'', ''Crdp.Network.LoadingFinishedEvent'')]"
  let ?cm = "[(''Network.enable'', \<lparr>paramsType = ''void'', returnType = ''void''\<rparr>),
      (''Network.setCacheDisabled'',
         \<lparr>paramsType = ''Crdp.Network.SetCacheDisabledRequest'', returnType = ''void''\<rparr>),
      (''Network.configure'',
         \<lparr>paramsType = ''void | Crdp.Network.EnableRequest'',
          returnType = ''Crdp.Network.GetCertificateResponse''\<rparr>),
      (''Network.mark'', \<lparr>paramsType = ''void | Crdp.Network.Marker'', returnType = ''void''\<rparr>)]"
  let ?out = "headerBlock @ ''\<newline>declare global {\<newline>  module LH {'' @
          newline 2 @ ''export interface CrdpEvents {'' @
          concat (map (event_text 2) (concat [?em])) @ newline 2 @ ''}'' @
          ''\<newline>'' @
          newline 2 @ ''export interface CrdpCommands {'' @
          concat (map (command_text 2) (concat [?cm])) @ newline 2 @ ''}'' @
          ''\<newline>  }\<newline>}\<newline>\<newline>// empty export to keep file a module\<newline>export {}\<newline>''"
  have "\<exists>domainNames eventMaps commandMaps.
        getCrdpDomainNames sampleRoot = Inr domainNames \<and>
        list_all2 (\<lambda>d m. getEventMap sampleRoot d = Inr m) domainNames eventMaps \<and>
        list_all2 (\<lambda>d m. getCommandMap sampleRoot d = Inr m) domainNames commandMaps \<and>
        ?out = headerBlock @ ''\<newline>declare global {\<newline>  module LH {'' @
          newline 2 @ ''export interface CrdpEvents {'' @
          concat (map (event_text 2) (concat eventMaps)) @ newline 2 @ ''}'' @
          ''\<newline>'' @
          newline 2 @ ''export interface CrdpCommands {'' @
          concat (map (command_text 2) (concat commandMaps)) @ newline 2 @ ''}'' @
          ''\<newline>  }\<newline>}\<newline>\<newline>// empty export to keep file a module\<newline>export {}\<newline>''"
    by (rule exI [where x = "[''Network'']"], rule exI [where x = "[?em]"], rule exI [where x = "[?cm]"])
      (simp add: sample_domains sample_getEventMap sample_getCommandMap)
  then have out: "crdpStr sampleRoot = Inr ?out"
    by (rule extraction_deterministic [THEN conjunct2, THEN conjunct2, THEN conjunct1, THEN iffD2])
  have eq: "?out = headerBlock @
       ''\<newline>declare global {\<newline>  module LH {'' @
       ''\<newline>    export interface CrdpEvents {'' @
       ''\<newline>      '' @ [CHR 0x27] @ ''Network.requestWillBeSent'' @ [CHR 0x27] @ '': void;'' @
       ''\<newline>      '' @ [CHR 0x27] @ ''Network.loadingFinished'' @ [CHR 0x27] @ '': Crdp.Network.LoadingFinishedEvent;'' @
       ''\<newline>    }'' @
       ''\<newline>'' @
       ''\<newline>    export interface CrdpCommands {'' @
       ''\<newline>      '' @ [CHR 0x27] @ ''Network.enable'' @ [CHR 0x27] @ '': {'' @
       ''\<newline>        paramsType: void,'' @
       ''\<newline>        returnType: void'' @
       ''\<newline>      };'' @
       ''\<newline>      '' @ [CHR 0x27] @ ''Network.setCacheDisabled'' @ [CHR 0x27] @ '': {'' @
       ''\<newline>        paramsType: Crdp.Network.SetCacheDisabledRequest,'' @
       ''\<newline>        returnType: void'' @
       ''\<newline>      };'' @
       ''\<newline>      '' @ [CHR 0x27] @ ''Network.configure'' @ [CHR 0x27] @ '': {'' @
       ''\<newline>        paramsType: void | Crdp.Network.EnableRequest,'' @
       ''\<newline>        returnType: Crdp.Network.GetCertificateResponse'' @
       ''\<newline>      };'' @
       ''\<newline>      '' @ [CHR 0x27] @ ''Network.mark'' @ [CHR 0x27] @ '': {'' @
       ''\<newline>        paramsType: void | Crdp.Network.Marker,'' @
       ''\<newline>        returnType: void'' @
       ''\<newline>      };'' @
       ''\<newline>    }'' @
       ''\<newline>  }\<newline>}\<newline>\<newline>// empty export to keep file a module\<newline>export {}\<newline>''"
    by code_simp
  have first: "crdpStr sampleRoot = Inr (headerBlock @
       ''\<newline>declare global {\<newline>  module LH {'' @
       ''\<newline>    export interface CrdpEvents {'' @
       ''\<newline>      '' @ [CHR 0x27] @ ''Network.requestWillBeSent'' @ [CHR 0x27] @ '': void;'' @
       ''\<newline>      '' @ [CHR 0x27] @ ''Network.loadingFinished'' @ [CHR 0x27] @ '': Crdp.Network.LoadingFinishedEvent;'' @
       ''\<newline>    }'' @
       ''\<newline>'' @
       ''\<newline>    export interface CrdpCommands {'' @
       ''\<newline>      '' @ [CHR 0x27] @ ''Network.enable'' @ [CHR 0x27] @ '': {'' @
       ''\<newline>        paramsType: void,'' @
       ''\<newline>        returnType: void'' @
       ''\<newline>      };'' @
       ''\<newline>      '' @ [CHR 0x27] @ ''Network.setCacheDisabled'' @ [CHR 0x27] @ '': {'' @
       ''\<newline>        paramsType: Crdp.Network.SetCacheDisabledRequest,'' @
       ''\<newline>        returnType: void'' @
       ''\<newline>      };'' @
       ''\<newline>      '' @ [CHR 0x27] @ ''Network.configure'' @ [CHR 0x27] @ '': {'' @
       ''\<newline>        paramsType: void | Crdp.Network.EnableRequest,'' @
       ''\<newline>        returnType: Crdp.Network.GetCertificateResponse'' @
       ''\<newline>      };'' @
       ''\<newline>      '' @ [CHR 0x27] @ ''Network.mark'' @ [CHR 0x27] @ '': {'' @
       ''\<newline>        paramsType: void | Crdp.Network.Marker,'' @
       ''\<newline>        returnType: void'' @
       ''\<newline>      };'' @
       ''\<newline>    }'' @
       ''\<newline>  }\<newline>}\<newline>\<newline>// empty export to keep file a module\<newline>export {}\<newline>'')"
    using out by (simp only: eq)
  have differ: "paddedRoot \<noteq> sampleRoot"
    by (simp add: paddedRoot_def sampleRoot_def)
  have agree: "getCrdpDomainNames paddedRoot = getCrdpDomainNames sampleRoot \<and>
    (\<forall>domainNames. getCrdpDomainNames paddedRoot = Inr domainNames \<longrightarrow>
       (\<forall>d\<in>set domainNames. getEventMap paddedRoot d = getEventMap sampleRoot d \<and>
          getCommandMap paddedRoot d = getCommandMap sampleRoot d))"
    by (simp add: padded_domains sample_domains padded_getEventMap sample_getEventMap
        padded_getCommandMap sample_getCommandMap)
  have second: "crdpStr paddedRoot = crdpStr sampleRoot"
    using agree by (rule extraction_deterministic [THEN conjunct2, THEN conjunct1, THEN mp])
  show ?thesis
    using first differ second by (intro conjI)
qed

end
